theory Spec2Isabelle
  imports Complex_Main
begin

section \<open>Shared vocabulary\<close>

text \<open>
  JavaScript numbers are modelled as real numbers: every constant of the source
  (0.05, 0.2, 0.75, 0.95, 66.67) is the decimal it is written as, and the arithmetic is
  exact. An element reference held in a field is a \<open>bool\<close> (the element was found) or
  an \<open>option\<close> (the object exists); the inline styles that \<open>gsap.set\<close> writes are
  fields of the state, \<open>None\<close> meaning that no inline value is set.
\<close>

datatype error = TypeError string

text \<open>A CSS length as the source writes it: \<open>"12px"\<close>, \<open>"-66.67%"\<close>, \<open>"100svh"\<close>.\<close>

datatype css = Px real | Percent real | Svh real

record rgba =
  red :: real
  green :: real
  blue :: real
  alpha :: real

text \<open>
  Modelled from the spec: \<open>gsap.utils.interpolate\<close> on two colours, a function of the
  animation engine, which is not part of the repository. The spec says that the colour
  "linearly interpolates from the light theme color to the dark theme color".
\<close>

definition interpolate :: "rgba \<Rightarrow> rgba \<Rightarrow> real \<Rightarrow> rgba" where
  "interpolate a b t =
     \<lparr>red = red a + (red b - red a) * t,
      green = green a + (green b - green a) * t,
      blue = blue a + (blue b - blue a) * t,
      alpha = alpha a + (alpha b - alpha a) * t\<rparr>"

text \<open>
  A method call \<open>r.m()\<close> on a reference that may be \<open>null\<close>: JavaScript throws a
  TypeError when \<open>r\<close> is \<open>null\<close>.
\<close>

definition invoke :: "'r option \<Rightarrow> ('r \<Rightarrow> 's) \<Rightarrow> error + 's" where
  "invoke r m = (case r of None \<Rightarrow> Inl (TypeError ''null reference'') | Some x \<Rightarrow> Inr (m x))"

definition and_then :: "error + 'a \<Rightarrow> ('a \<Rightarrow> error + 'b) \<Rightarrow> error + 'b" where
  "and_then r f = (case r of Inl e \<Rightarrow> Inl e | Inr x \<Rightarrow> f x)"

section \<open>ComplexHorizontal.js: the phase-orchestrated scroller\<close>

subsection \<open>Data model\<close>

text \<open>The document as \<open>setupElements\<close> and \<open>setupColors\<close> query it.\<close>

record complex_page =
  page_app :: bool
  page_marquee :: bool
  page_marquee_track :: bool
  page_horizontal :: bool
  page_horizontal_wrapper :: bool
  page_marquee_items :: nat
  page_horizontal_slides :: nat
  page_pin_item :: bool
  page_pin_item_img :: bool
  page_color_light :: rgba
  page_color_dark :: rgba

text \<open>What \<open>getBoundingClientRect\<close>, \<open>offsetWidth\<close> and \<open>offsetHeight\<close> of the pinned
  image return at the moment the clone is made.\<close>

record img_geometry =
  rect_left :: real
  rect_top :: real
  rect_width :: real
  rect_height :: real
  offsetWidth :: real
  offsetHeight :: real

text \<open>The cloned image node with the inline styles the source sets on it.\<close>

record clone_node =
  node_id :: nat
  css_position :: string
  css_left :: css
  css_top :: css
  css_width :: css
  css_height :: css
  css_rotate :: real
  clone_x :: "css option"

text \<open>The paused tween that \<open>Flip.from\<close> returns; \<open>progress(p)\<close> sets \<open>flip_progress\<close>.\<close>

record flip_tween =
  tween_id :: nat
  flip_target :: nat
  flip_paused :: bool
  flip_progress :: real

datatype trigger = MarqueeTrigger | PinTrigger | CloneTrigger | FlipTrigger | MainTrigger

text \<open>
  The fields of the class, followed by the part of the page and of the animation engine
  that its methods write: inline styles, the clone nodes attached to \<open>document.body\<close>,
  the tweens and triggers alive in the engine.
\<close>

record complex_horizontal =
  container :: bool
  marqueeSection :: bool
  marqueeTrack :: bool
  marqueeItems :: nat
  pinnedMarqueeImg :: bool
  horizontalSection :: bool
  horizontalWrapper :: bool
  horizontalSlides :: nat
  pinnedImgClone :: "clone_node option"
  isImgCloneActive :: bool
  flipAnimation :: "flip_tween option"
  lightColor :: "rgba option"
  darkColor :: "rgba option"
  scrollTriggers :: "trigger list"
  container_backgroundColor :: "rgba option"
  marqueeTrack_x :: "css option"
  horizontalWrapper_x :: "css option"
  pinnedMarqueeImg_opacity :: "real option"
  body_nodes :: "nat list"
  next_node :: nat
  live_tweens :: "nat list"
  next_tween :: nat
  live_triggers :: "trigger list"

subsection \<open>Construction\<close>

definition fresh_ComplexHorizontal :: complex_horizontal where
  "fresh_ComplexHorizontal =
     \<lparr>container = False, marqueeSection = False, marqueeTrack = False, marqueeItems = 0,
      pinnedMarqueeImg = False, horizontalSection = False, horizontalWrapper = False,
      horizontalSlides = 0, pinnedImgClone = None, isImgCloneActive = False,
      flipAnimation = None, lightColor = None, darkColor = None, scrollTriggers = [],
      container_backgroundColor = None, marqueeTrack_x = None, horizontalWrapper_x = None,
      pinnedMarqueeImg_opacity = None, body_nodes = [], next_node = 0, live_tweens = [],
      next_tween = 0, live_triggers = []\<rparr>"

definition setupElements :: "complex_page \<Rightarrow> complex_horizontal \<Rightarrow> complex_horizontal" where
  "setupElements pg s =
     (let s1 = s\<lparr>container := page_app pg, marqueeSection := page_marquee pg,
                 marqueeTrack := page_marquee_track pg, horizontalSection := page_horizontal pg,
                 horizontalWrapper := page_horizontal_wrapper pg\<rparr>
      in if \<not> marqueeSection s1 \<or> \<not> horizontalSection s1 then s1
         else let s2 = s1\<lparr>marqueeItems := page_marquee_items pg,
                           horizontalSlides := page_horizontal_slides pg\<rparr>
              in if page_pin_item pg then s2\<lparr>pinnedMarqueeImg := page_pin_item_img pg\<rparr> else s2)"

definition setupColors :: "complex_page \<Rightarrow> complex_horizontal \<Rightarrow> complex_horizontal" where
  "setupColors pg s =
     s\<lparr>lightColor := Some (page_color_light pg), darkColor := Some (page_color_dark pg)\<rparr>"

text \<open>\<open>ScrollTrigger.create\<close> followed by \<open>this.scrollTriggers.push(trigger)\<close>.\<close>

definition register :: "trigger \<Rightarrow> complex_horizontal \<Rightarrow> complex_horizontal" where
  "register t s = s\<lparr>live_triggers := live_triggers s @ [t], scrollTriggers := scrollTriggers s @ [t]\<rparr>"

definition createMarqueeAnimation :: "complex_horizontal \<Rightarrow> complex_horizontal" where
  "createMarqueeAnimation s = (if \<not> marqueeTrack s then s else register MarqueeTrigger s)"

definition createHorizontalPinAnimation :: "complex_horizontal \<Rightarrow> complex_horizontal" where
  "createHorizontalPinAnimation s = (if \<not> horizontalSection s then s else register PinTrigger s)"

definition createCloneManagementTriggers :: "complex_horizontal \<Rightarrow> complex_horizontal" where
  "createCloneManagementTriggers s =
     (if \<not> marqueeSection s \<or> \<not> pinnedMarqueeImg s then s
      else register FlipTrigger (register CloneTrigger s))"

definition createMainScrollAnimation :: "complex_horizontal \<Rightarrow> complex_horizontal" where
  "createMainScrollAnimation s = (if \<not> horizontalSection s then s else register MainTrigger s)"

definition new_ComplexHorizontal :: "complex_page \<Rightarrow> complex_horizontal" where
  "new_ComplexHorizontal pg =
     createMainScrollAnimation (createCloneManagementTriggers (createHorizontalPinAnimation
       (createMarqueeAnimation (setupColors pg (setupElements pg fresh_ComplexHorizontal)))))"

subsection \<open>The image clone and the shape-morph animation\<close>

definition createPinnedImgClone :: "img_geometry \<Rightarrow> complex_horizontal \<Rightarrow> complex_horizontal" where
  "createPinnedImgClone g s =
     (if isImgCloneActive s \<or> \<not> pinnedMarqueeImg s then s
      else let centerX = rect_left g + rect_width g / 2;
               centerY = rect_top g + rect_height g / 2;
               c = \<lparr>node_id = next_node s, css_position = ''fixed'',
                    css_left = Px (centerX - offsetWidth g / 2),
                    css_top = Px (centerY - offsetHeight g / 2),
                    css_width = Px (offsetWidth g), css_height = Px (offsetHeight g),
                    css_rotate = - 5, clone_x = None\<rparr>
           in s\<lparr>pinnedImgClone := Some c, body_nodes := body_nodes s @ [node_id c],
                next_node := Suc (next_node s), pinnedMarqueeImg_opacity := Some 0,
                isImgCloneActive := True\<rparr>)"

definition removePinnedImgClone :: "complex_horizontal \<Rightarrow> complex_horizontal" where
  "removePinnedImgClone s =
     (if \<not> isImgCloneActive s then s
      else let s1 = (case pinnedImgClone s of
                       Some c \<Rightarrow> s\<lparr>body_nodes := removeAll (node_id c) (body_nodes s),
                                    pinnedImgClone := None\<rparr>
                     | None \<Rightarrow> s);
               s2 = (if pinnedMarqueeImg s1 then s1\<lparr>pinnedMarqueeImg_opacity := Some 1\<rparr> else s1)
           in s2\<lparr>isImgCloneActive := False\<rparr>)"

definition initializeFlipAnimation :: "complex_horizontal \<Rightarrow> complex_horizontal" where
  "initializeFlipAnimation s =
     (case pinnedImgClone s of
        None \<Rightarrow> s
      | Some c \<Rightarrow>
          if \<not> isImgCloneActive s \<or> flipAnimation s \<noteq> None then s
          else let c' = c\<lparr>css_position := ''fixed'', css_left := Px 0, css_top := Px 0,
                           css_width := Percent 100, css_height := Svh 100, css_rotate := 0\<rparr>;
                   f = \<lparr>tween_id = next_tween s, flip_target = node_id c, flip_paused = True,
                        flip_progress = 0\<rparr>
               in s\<lparr>pinnedImgClone := Some c', flipAnimation := Some f,
                    live_tweens := live_tweens s @ [tween_id f],
                    next_tween := Suc (next_tween s)\<rparr>)"

text \<open>\<open>this.flipAnimation.kill(); this.flipAnimation = null\<close> under its guard.\<close>

definition killFlipAnimation :: "complex_horizontal \<Rightarrow> complex_horizontal" where
  "killFlipAnimation s =
     (case flipAnimation s of
        Some f \<Rightarrow> s\<lparr>live_tweens := removeAll (tween_id f) (live_tweens s), flipAnimation := None\<rparr>
      | None \<Rightarrow> s)"

definition resetFlipAnimation :: "complex_horizontal \<Rightarrow> complex_horizontal" where
  "resetFlipAnimation s =
     (let s1 = killFlipAnimation s;
          s2 = (if container s1 then s1\<lparr>container_backgroundColor := lightColor s1\<rparr> else s1)
      in if horizontalWrapper s2 then s2\<lparr>horizontalWrapper_x := Some (Percent 0)\<rparr> else s2)"

subsection \<open>The phase dispatcher\<close>

definition updateBackgroundColor :: "real \<Rightarrow> complex_horizontal \<Rightarrow> complex_horizontal" where
  "updateBackgroundColor progress s =
     (if \<not> container s then s
      else if progress \<le> 0.05 then
        (let bgColorProgress = min (progress / 0.05) 1;
             newBgColor = (case (lightColor s, darkColor s) of
                             (Some l, Some d) \<Rightarrow> Some (interpolate l d bgColorProgress)
                           | _ \<Rightarrow> None)
         in s\<lparr>container_backgroundColor := newBgColor\<rparr>)
      else s\<lparr>container_backgroundColor := darkColor s\<rparr>)"

definition updateFlipAnimation :: "real \<Rightarrow> complex_horizontal \<Rightarrow> complex_horizontal" where
  "updateFlipAnimation progress s =
     (case flipAnimation s of
        None \<Rightarrow> s
      | Some f \<Rightarrow>
          if progress \<le> 0.2 then
            (let scaleProgress = progress / 0.2
             in s\<lparr>flipAnimation := Some (f\<lparr>flip_progress := scaleProgress\<rparr>)\<rparr>)
          else s\<lparr>flipAnimation := Some (f\<lparr>flip_progress := 1\<rparr>)\<rparr>)"

definition moveWrapper :: "css \<Rightarrow> complex_horizontal \<Rightarrow> complex_horizontal" where
  "moveWrapper v s = (if horizontalWrapper s then s\<lparr>horizontalWrapper_x := Some v\<rparr> else s)"

definition moveClone :: "css \<Rightarrow> complex_horizontal \<Rightarrow> complex_horizontal" where
  "moveClone v s =
     (case pinnedImgClone s of
        Some c \<Rightarrow> s\<lparr>pinnedImgClone := Some (c\<lparr>clone_x := Some v\<rparr>)\<rparr>
      | None \<Rightarrow> s)"

definition updateHorizontalScroll :: "real \<Rightarrow> complex_horizontal \<Rightarrow> complex_horizontal" where
  "updateHorizontalScroll progress s =
     (if progress > 0.2 \<and> progress \<le> 0.95 then
        (let horizontalProgress = (progress - 0.2) / 0.75;
             wrapperTranslateX = - 66.67 * horizontalProgress;
             slideMovement = (66.67 / 100) * 3 * horizontalProgress;
             imageTranslateX = - slideMovement * 100
         in moveClone (Percent imageTranslateX) (moveWrapper (Percent wrapperTranslateX) s))
      else if progress > 0.95 then
        moveWrapper (Percent (- 66.67)) (moveClone (Percent (- 200)) s)
      else s)"

definition handleMainScrollUpdate :: "real \<Rightarrow> complex_horizontal \<Rightarrow> complex_horizontal" where
  "handleMainScrollUpdate progress s =
     updateHorizontalScroll progress (updateFlipAnimation progress (updateBackgroundColor progress s))"

text \<open>The \<open>onUpdate\<close> callback of the marquee trigger.\<close>

definition marqueeUpdate :: "real \<Rightarrow> complex_horizontal \<Rightarrow> complex_horizontal" where
  "marqueeUpdate progress s =
     (let xPosition = - 75 + progress * 25 in s\<lparr>marqueeTrack_x := Some (Percent xPosition)\<rparr>)"

subsection \<open>Callbacks of the scroll triggers\<close>

text \<open>
  One constructor per callback that \<open>createMarqueeAnimation\<close>,
  \<open>createCloneManagementTriggers\<close> and \<open>createMainScrollAnimation\<close> register; the
  clone callbacks carry the geometry of the pinned image at that moment.
\<close>

datatype ch_event =
    CloneEnter img_geometry | CloneEnterBack img_geometry | CloneLeaveBack
  | FlipEnter | FlipLeaveBack | MainUpdate real | MarqueeUpdate real

fun callback :: "ch_event \<Rightarrow> complex_horizontal \<Rightarrow> complex_horizontal" where
  "callback (CloneEnter g) s = createPinnedImgClone g s"
| "callback (CloneEnterBack g) s = createPinnedImgClone g s"
| "callback CloneLeaveBack s = removePinnedImgClone s"
| "callback FlipEnter s = initializeFlipAnimation s"
| "callback FlipLeaveBack s = resetFlipAnimation s"
| "callback (MainUpdate p) s = handleMainScrollUpdate p s"
| "callback (MarqueeUpdate p) s = marqueeUpdate p s"

fun run :: "ch_event list \<Rightarrow> complex_horizontal \<Rightarrow> complex_horizontal" where
  "run [] s = s"
| "run (ev # evs) s = run evs (callback ev s)"

fun feed :: "real list \<Rightarrow> complex_horizontal \<Rightarrow> complex_horizontal" where
  "feed [] s = s"
| "feed (p # ps) s = feed ps (handleMainScrollUpdate p s)"

definition visual_state ::
  "complex_horizontal \<Rightarrow> rgba option \<times> real option \<times> css option \<times> css option option" where
  "visual_state s =
     (container_backgroundColor s, map_option flip_progress (flipAnimation s),
      horizontalWrapper_x s, map_option clone_x (pinnedImgClone s))"

subsection \<open>Tearing the scroller down\<close>

definition ComplexHorizontal_destroy :: "complex_horizontal \<Rightarrow> error + complex_horizontal" where
  "ComplexHorizontal_destroy s =
     (let s1 = s\<lparr>live_triggers := filter (\<lambda>t. t \<notin> set (scrollTriggers s)) (live_triggers s),
                 scrollTriggers := []\<rparr>
      in and_then
           (if flipAnimation s1 \<noteq> None
            then invoke (flipAnimation s1)
                   (\<lambda>f. s1\<lparr>live_tweens := removeAll (tween_id f) (live_tweens s1),
                            flipAnimation := None\<rparr>)
            else Inr s1)
           (\<lambda>s2. let s3 = removePinnedImgClone s2;
                      s4 = (if container s3 then s3\<lparr>container_backgroundColor := None\<rparr> else s3);
                      s5 = (if marqueeTrack s4 then s4\<lparr>marqueeTrack_x := None\<rparr> else s4)
                  in Inr (if horizontalWrapper s5 then s5\<lparr>horizontalWrapper_x := None\<rparr> else s5)))"

subsection \<open>Invariants of the clone and of the shape-morph animation\<close>

text \<open>The fields that the life cycle of the clone and of its animation reads and writes.\<close>

definition lifecycle ::
  "complex_horizontal \<Rightarrow> clone_node option \<times> bool \<times> flip_tween option \<times> nat list \<times> nat list" where
  "lifecycle s =
     (pinnedImgClone s, isImgCloneActive s, flipAnimation s, body_nodes s, live_tweens s)"

text \<open>The clone nodes attached to the body are exactly the clone the scroller holds, and
  the flag \<open>isImgCloneActive\<close> says whether it holds one.\<close>

definition clone_inv :: "complex_horizontal \<Rightarrow> bool" where
  "clone_inv s \<longleftrightarrow>
     (isImgCloneActive s \<longleftrightarrow> pinnedImgClone s \<noteq> None) \<and>
     body_nodes s = (case pinnedImgClone s of None \<Rightarrow> [] | Some c \<Rightarrow> [node_id c])"

text \<open>The tweens alive in the engine are exactly the animation the scroller holds.\<close>

definition flip_inv :: "complex_horizontal \<Rightarrow> bool" where
  "flip_inv s \<longleftrightarrow>
     live_tweens s = (case flipAnimation s of None \<Rightarrow> [] | Some f \<Rightarrow> [tween_id f])"

subsection \<open>The values the dispatcher writes\<close>

text \<open>
  The value each phase writes at a given progress, read off the branches of
  \<open>updateBackgroundColor\<close>, \<open>updateFlipAnimation\<close> and \<open>updateHorizontalScroll\<close>; the
  lemmas \<open>uB_alt\<close>, \<open>uF_alt\<close> and \<open>uH_alt\<close> below prove that the methods write exactly
  these.
\<close>

definition backgroundFor :: "real \<Rightarrow> rgba option \<Rightarrow> rgba option \<Rightarrow> rgba option" where
  "backgroundFor p l d =
     (if p \<le> 0.05 then (case (l, d) of (Some l', Some d') \<Rightarrow> Some (interpolate l' d' (min (p / 0.05) 1)) | _ \<Rightarrow> None)
      else d)"

definition scrubFor :: "real \<Rightarrow> real" where
  "scrubFor p = (if p \<le> 0.2 then p / 0.2 else 1)"

definition wrapperFor :: "real \<Rightarrow> css" where
  "wrapperFor p = (if p \<le> 0.95 then Percent (- 66.67 * ((p - 0.2) / 0.75)) else Percent (- 66.67))"

definition cloneFor :: "real \<Rightarrow> css" where
  "cloneFor p = (if p \<le> 0.95 then Percent (- ((66.67 / 100) * 3 * ((p - 0.2) / 0.75)) * 100) else Percent (- 200))"

definition wrapperPercent :: "real \<Rightarrow> real" where
  "wrapperPercent p = (if p \<le> 0.95 then - 66.67 * ((p - 0.2) / 0.75) else - 66.67)"

section \<open>HorizontalScroll.js: the single-axis scroller\<close>

subsection \<open>Data model\<close>

text \<open>A \<open>.slide\<close> element: whether it contains a \<open>.title h1\<close> and an \<open>img\<close>, and the
  inline styles the scroller sets on them.\<close>

record slide =
  slide_id :: nat
  has_title :: bool
  has_img :: bool
  title_y :: "real option"
  img_x :: "real option"
  img_scale :: "real option"

record horizontal_page =
  page_sticky :: bool
  page_slides_container :: bool
  page_slider :: bool
  page_slides :: "slide list"
  page_innerHeight :: real
  page_slides_container_width :: real
  page_slider_width :: real

text \<open>A tween that \<open>animateTitles\<close> starts on the title of the slide at an index.\<close>

record title_tween =
  tween_slide :: nat
  tween_y :: real

text \<open>An \<open>IntersectionObserverEntry\<close>: the observed slide and its visible fraction.\<close>

record entry =
  target :: nat
  intersectionRatio :: real

text \<open>\<open>scrollTrigger\<close> and \<open>observer\<close> are \<open>None\<close> for \<open>null\<close>; the flag of an existing one
  says whether it is still registered (not yet killed or disconnected).\<close>

record horizontal_scroll =
  stickySection :: bool
  slidesContainer :: bool
  slider :: bool
  slides :: "slide list"
  stickyHeight :: real
  totalMove :: real
  slideWidth :: real
  currentVisibleIndex :: "int option"
  scrollTrigger :: "bool option"
  observer :: "bool option"
  titleAnimations :: "title_tween list"
  slidesContainer_x :: "real option"

subsection \<open>Construction\<close>

definition fresh_HorizontalScroll :: horizontal_scroll where
  "fresh_HorizontalScroll =
     \<lparr>stickySection = False, slidesContainer = False, slider = False, slides = [],
      stickyHeight = 0, totalMove = 0, slideWidth = 0, currentVisibleIndex = None,
      scrollTrigger = None, observer = None, titleAnimations = [], slidesContainer_x = None\<rparr>"

definition setupElements_hs :: "horizontal_page \<Rightarrow> horizontal_scroll \<Rightarrow> horizontal_scroll" where
  "setupElements_hs pg s =
     (let s1 = s\<lparr>stickySection := page_sticky pg, slidesContainer := page_slides_container pg,
                 slider := page_slider pg\<rparr>
      in if \<not> stickySection s1 \<or> \<not> slidesContainer s1 \<or> \<not> slider s1 then s1
         else s1\<lparr>slides := page_slides pg\<rparr>)"

definition setupDimensions :: "horizontal_page \<Rightarrow> horizontal_scroll \<Rightarrow> horizontal_scroll" where
  "setupDimensions pg s =
     (if \<not> slider s \<or> \<not> slidesContainer s then s
      else s\<lparr>stickyHeight := page_innerHeight pg * 6,
             totalMove := page_slides_container_width pg - page_slider_width pg,
             slideWidth := page_slider_width pg\<rparr>)"

definition setupInitialStates :: "horizontal_scroll \<Rightarrow> horizontal_scroll" where
  "setupInitialStates s =
     (if length (slides s) = 0 then s
      else s\<lparr>slides := map (\<lambda>sl. if has_title sl then sl\<lparr>title_y := Some (- 200)\<rparr> else sl)
                           (slides s)\<rparr>)"

definition createIntersectionObserver :: "horizontal_scroll \<Rightarrow> horizontal_scroll" where
  "createIntersectionObserver s =
     (if \<not> slider s \<or> length (slides s) = 0 then s else s\<lparr>observer := Some True\<rparr>)"

definition createScrollAnimation :: "horizontal_scroll \<Rightarrow> horizontal_scroll" where
  "createScrollAnimation s =
     (if \<not> stickySection s \<or> \<not> slidesContainer s \<or> length (slides s) = 0 then s
      else s\<lparr>scrollTrigger := Some True\<rparr>)"

definition new_HorizontalScroll :: "horizontal_page \<Rightarrow> horizontal_scroll" where
  "new_HorizontalScroll pg =
     createScrollAnimation (createIntersectionObserver (setupInitialStates
       (setupDimensions pg (setupElements_hs pg fresh_HorizontalScroll))))"

subsection \<open>The visibility state machine\<close>

text \<open>\<open>Array.prototype.indexOf\<close> on the slides: the first index of the element, or -1.\<close>

fun index_from :: "slide list \<Rightarrow> nat \<Rightarrow> int \<Rightarrow> int" where
  "index_from [] t i = - 1"
| "index_from (sl # sls) t i = (if slide_id sl = t then i else index_from sls t (i + 1))"

definition indexOf :: "slide list \<Rightarrow> nat \<Rightarrow> int" where
  "indexOf sls t = index_from sls t 0"

definition animateTitles :: "int \<Rightarrow> horizontal_scroll \<Rightarrow> horizontal_scroll" where
  "animateTitles activeIndex s =
     s\<lparr>titleAnimations := titleAnimations s @
          map (\<lambda>index. \<lparr>tween_slide = index,
                         tween_y = (if int index = activeIndex then 0 else - 200)\<rparr>)
            (filter (\<lambda>index. has_title (slides s ! index)) [0..<length (slides s)])\<rparr>"

text \<open>The body of the \<open>forEach\<close> in \<open>handleIntersection\<close>.\<close>

definition handleEntry :: "entry \<Rightarrow> horizontal_scroll \<Rightarrow> horizontal_scroll" where
  "handleEntry e s =
     (let currentIndex = indexOf (slides s) (target e)
      in if intersectionRatio e \<ge> 0.25 then
           animateTitles currentIndex (s\<lparr>currentVisibleIndex := Some currentIndex\<rparr>)
         else if intersectionRatio e < 0.25 \<and> currentVisibleIndex s = Some currentIndex then
           (let prevIndex = currentIndex - 1
            in animateTitles prevIndex
                 (s\<lparr>currentVisibleIndex := (if prevIndex \<ge> 0 then Some prevIndex else None)\<rparr>))
         else s)"

fun handleIntersection :: "entry list \<Rightarrow> horizontal_scroll \<Rightarrow> horizontal_scroll" where
  "handleIntersection [] s = s"
| "handleIntersection (e # es) s = handleIntersection es (handleEntry e s)"

subsection \<open>Tearing the scroller down\<close>

text \<open>The title tweens are killed one by one under the guard \<open>if (animation)\<close> and the
  array is emptied; the model keeps no trace of a killed title tween.\<close>

definition HorizontalScroll_destroy :: "horizontal_scroll \<Rightarrow> error + horizontal_scroll" where
  "HorizontalScroll_destroy s =
     and_then
       (if scrollTrigger s \<noteq> None then invoke (scrollTrigger s) (\<lambda>t. s\<lparr>scrollTrigger := Some False\<rparr>)
        else Inr s)
       (\<lambda>s1. and_then
          (if observer s1 \<noteq> None then invoke (observer s1) (\<lambda>ob. s1\<lparr>observer := Some False\<rparr>)
           else Inr s1)
          (\<lambda>s2. let s3 = s2\<lparr>titleAnimations := []\<rparr>;
                     s4 = (if slidesContainer s3 then s3\<lparr>slidesContainer_x := None\<rparr> else s3)
                 in Inr (s4\<lparr>slides :=
                           map (\<lambda>sl. let sl1 = (if has_img sl then sl\<lparr>img_x := None, img_scale := None\<rparr>
                                                 else sl)
                                      in if has_title sl1 then sl1\<lparr>title_y := None\<rparr> else sl1)
                             (slides s4)\<rparr>)))"

section \<open>LenisScroll.js: the smooth-scroll adapter\<close>

text \<open>\<open>lenis\<close> is \<open>None\<close> for \<open>null\<close>; the flag of an existing instance says whether it is
  still running. \<open>ticker\<close> counts the callbacks added to \<open>gsap.ticker\<close>.\<close>

record lenis_scroll =
  lenis :: "bool option"
  bound_to_ScrollTrigger :: bool
  ticker :: nat

definition new_LenisScroll :: lenis_scroll where
  "new_LenisScroll = \<lparr>lenis = Some True, bound_to_ScrollTrigger = True, ticker = 1\<rparr>"

definition LenisScroll_destroy :: "lenis_scroll \<Rightarrow> error + lenis_scroll" where
  "LenisScroll_destroy s =
     (if lenis s \<noteq> None then invoke (lenis s) (\<lambda>l. s\<lparr>lenis := Some False\<rparr>) else Inr s)"

section \<open>MeduzaHorizontal.js: the beat-synchronised card gallery\<close>

subsection \<open>Data model\<close>

text \<open>An \<open>audio\<close> element, and a \<open>.cards\<close> element with the \<open>audio\<close> and the
  \<open>.play-btn\<close> checkbox it may contain (the checkbox as its \<open>checked\<close> state).\<close>

record audio_el =
  paused :: bool
  currentTime :: real

record card_el =
  audio :: "audio_el option"
  toggle :: "bool option"

text \<open>An entry of \<open>this.cards\<close>.\<close>

record card_desc =
  card_id :: string
  endTranslateX :: real
  rotate_deg :: real

text \<open>A tween made by \<open>gsap.to\<close>: the selector it animates, the properties it animates
  them to, and its \<open>yoyo\<close>, \<open>repeat\<close> (\<open>-1\<close> repeats for ever), \<open>duration\<close> and \<open>ease\<close>.\<close>

record tween =
  tw_target :: string
  tw_vars :: "(string \<times> string) list"
  tw_yoyo :: bool
  tw_repeat :: int
  tw_duration :: real
  tw_ease :: string

record meduza_page =
  page_app_mh :: bool
  page_pin_section :: bool
  page_cards :: "card_el list"

text \<open>
  The fields of the class, the variable \<open>currentAudio\<close> that the handlers of
  \<open>initCardMusic\<close> share (the index of the card whose audio it is), the \<open>.cards\<close>
  elements of the page, the tweens alive in the engine with their identities, the number
  of scroll triggers created, and the console.
\<close>

record meduza_horizontal =
  container_mh :: bool
  pinSection :: bool
  cards :: "card_desc list"
  beatTween :: "nat option"
  beatColorTween :: "nat option"
  cardsBeatTween :: "nat option"
  currentAudio :: "nat option"
  card_elements :: "card_el list"
  engine_tweens :: "(nat \<times> tween) list"
  next_tween_mh :: nat
  created_triggers :: nat
  console :: "string list"

subsection \<open>Construction\<close>

definition setupElements_mh :: "meduza_page \<Rightarrow> meduza_horizontal \<Rightarrow> meduza_horizontal" where
  "setupElements_mh pg s =
     s\<lparr>container_mh := page_app_mh pg, pinSection := page_pin_section pg,
       cards :=
         [\<lparr>card_id = ''#card-1'', endTranslateX = - 2000, rotate_deg = 45\<rparr>,
          \<lparr>card_id = ''#card-2'', endTranslateX = - 1000, rotate_deg = 30\<rparr>,
          \<lparr>card_id = ''#card-3'', endTranslateX = - 2000, rotate_deg = 45\<rparr>,
          \<lparr>card_id = ''#card-4'', endTranslateX = - 1400, rotate_deg = - 30\<rparr>,
          \<lparr>card_id = ''#card-5'', endTranslateX = - 1400, rotate_deg = 60\<rparr>,
          \<lparr>card_id = ''#card-6'', endTranslateX = - 1400, rotate_deg = - 45\<rparr>,
          \<lparr>card_id = ''#card-7'', endTranslateX = - 1400, rotate_deg = 25\<rparr>]\<rparr>"

definition initCardMusic :: "meduza_page \<Rightarrow> meduza_horizontal \<Rightarrow> meduza_horizontal" where
  "initCardMusic pg s = s\<lparr>currentAudio := None, card_elements := page_cards pg\<rparr>"

definition createHorizontalPinAnimation_mh :: "meduza_horizontal \<Rightarrow> meduza_horizontal" where
  "createHorizontalPinAnimation_mh s = s\<lparr>created_triggers := created_triggers s + 1\<rparr>"

definition createCardsAnimation :: "meduza_horizontal \<Rightarrow> meduza_horizontal" where
  "createCardsAnimation s = s\<lparr>created_triggers := created_triggers s + length (cards s)\<rparr>"

definition new_MeduzaHorizontal :: "meduza_page \<Rightarrow> meduza_horizontal" where
  "new_MeduzaHorizontal pg =
     createCardsAnimation (createHorizontalPinAnimation_mh (initCardMusic pg (setupElements_mh pg
       \<lparr>container_mh = False, pinSection = False, cards = [], beatTween = None,
        beatColorTween = None, cardsBeatTween = None, currentAudio = None, card_elements = [],
        engine_tweens = [], next_tween_mh = 0, created_triggers = 0, console = []\<rparr>)))"

subsection \<open>The beat pulse\<close>

text \<open>\<open>gsap.to\<close>: the new tween is alive in the engine under a fresh identity, which is
  \<open>next_tween_mh\<close> of the state before. \<open>kill\<close> takes a tween out of the engine.\<close>

definition gsap_to :: "tween \<Rightarrow> meduza_horizontal \<Rightarrow> meduza_horizontal" where
  "gsap_to t s =
     s\<lparr>engine_tweens := engine_tweens s @ [(next_tween_mh s, t)],
       next_tween_mh := Suc (next_tween_mh s)\<rparr>"

definition kill :: "nat \<Rightarrow> meduza_horizontal \<Rightarrow> meduza_horizontal" where
  "kill k s = s\<lparr>engine_tweens := filter (\<lambda>kt. fst kt \<noteq> k) (engine_tweens s)\<rparr>"

definition startBeatPulse :: "real \<Rightarrow> meduza_horizontal \<Rightarrow> meduza_horizontal" where
  "startBeatPulse bpm s =
     (if beatTween s \<noteq> None \<or> beatColorTween s \<noteq> None \<or> cardsBeatTween s \<noteq> None then s
      else let intervalMs = (60000 / bpm) / 2;
               s1 = (gsap_to \<lparr>tw_target = ''.video-blur-overlay'',
                              tw_vars = [(''backdropFilter'', ''blur(25px)''),
                                         (''-webkit-backdrop-filter'', ''blur(25px)'')],
                              tw_yoyo = True, tw_repeat = - 1, tw_duration = intervalMs / 1000,
                              tw_ease = ''sine.inOut''\<rparr> s)
                    \<lparr>beatTween := Some (next_tween_mh s)\<rparr>;
               s2 = (gsap_to \<lparr>tw_target = ''.video-color-pulse'',
                              tw_vars = [(''opacity'', ''0.9''), (''scale'', ''1.05''),
                                         (''transformOrigin'', ''center center'')],
                              tw_yoyo = True, tw_repeat = - 1, tw_duration = intervalMs / 1000,
                              tw_ease = ''sine.inOut''\<rparr> s1)
                    \<lparr>beatColorTween := Some (next_tween_mh s1)\<rparr>
           in (gsap_to \<lparr>tw_target = ''.sticky-wrapper-meduza .cards'',
                         tw_vars = [(''scale'', ''1.08''), (''transformOrigin'', ''center center'')],
                         tw_yoyo = True, tw_repeat = - 1, tw_duration = intervalMs / 1000,
                         tw_ease = ''sine.inOut''\<rparr> s2)
              \<lparr>cardsBeatTween := Some (next_tween_mh s2)\<rparr>)"

text \<open>The three one-shot tweens at the end of \<open>stopBeatPulse\<close>.\<close>

definition settle :: "meduza_horizontal \<Rightarrow> meduza_horizontal" where
  "settle s =
     gsap_to \<lparr>tw_target = ''.sticky-wrapper-meduza .cards'', tw_vars = [(''scale'', ''1'')],
              tw_yoyo = False, tw_repeat = 0, tw_duration = 0.3, tw_ease = ''power2.out''\<rparr>
       (gsap_to \<lparr>tw_target = ''.video-color-pulse'',
                 tw_vars = [(''opacity'', ''0''), (''scale'', ''1'')],
                 tw_yoyo = False, tw_repeat = 0, tw_duration = 0.4, tw_ease = ''power2.out''\<rparr>
          (gsap_to \<lparr>tw_target = ''.video-blur-overlay'',
                    tw_vars = [(''backdropFilter'', ''blur(15px)''),
                               (''-webkit-backdrop-filter'', ''blur(15px)'')],
                    tw_yoyo = False, tw_repeat = 0, tw_duration = 0.4, tw_ease = ''power2.out''\<rparr> s))"

definition stopBeatPulse :: "meduza_horizontal \<Rightarrow> error + meduza_horizontal" where
  "stopBeatPulse s =
     and_then
       (if beatTween s \<noteq> None
        then invoke (beatTween s) (\<lambda>k. (kill k s)\<lparr>beatTween := None\<rparr>) else Inr s)
       (\<lambda>s1. and_then
          (if beatColorTween s1 \<noteq> None
           then invoke (beatColorTween s1) (\<lambda>k. (kill k s1)\<lparr>beatColorTween := None\<rparr>) else Inr s1)
          (\<lambda>s2. and_then
             (if cardsBeatTween s2 \<noteq> None
              then invoke (cardsBeatTween s2) (\<lambda>k. (kill k s2)\<lparr>cardsBeatTween := None\<rparr>)
              else Inr s2)
             (\<lambda>s3. Inr (settle s3))))"

text \<open>The looping tweens alive in the engine.\<close>

definition loop_tweens :: "meduza_horizontal \<Rightarrow> (nat \<times> tween) list" where
  "loop_tweens s = filter (\<lambda>kt. tw_repeat (snd kt) = - 1) (engine_tweens s)"

subsection \<open>The handlers of \<open>initCardMusic\<close>\<close>

text \<open>\<open>initCardMusic\<close> adds the handlers of a card only when the card has both an
  \<open>audio\<close> and a \<open>.play-btn\<close>.\<close>

definition hasHandlers :: "nat \<Rightarrow> meduza_horizontal \<Rightarrow> bool" where
  "hasHandlers i s \<longleftrightarrow>
     i < length (card_elements s) \<and> audio (card_elements s ! i) \<noteq> None \<and>
     toggle (card_elements s ! i) \<noteq> None"

definition on_audio :: "nat \<Rightarrow> (audio_el \<Rightarrow> audio_el) \<Rightarrow> meduza_horizontal \<Rightarrow> meduza_horizontal" where
  "on_audio j f s =
     s\<lparr>card_elements := (card_elements s)
         [j := (card_elements s ! j)\<lparr>audio := map_option f (audio (card_elements s ! j))\<rparr>]\<rparr>"

definition set_checked :: "nat \<Rightarrow> bool \<Rightarrow> meduza_horizontal \<Rightarrow> meduza_horizontal" where
  "set_checked j b s =
     s\<lparr>card_elements := (card_elements s)
         [j := (card_elements s ! j)\<lparr>toggle := map_option (\<lambda>c. b) (toggle (card_elements s ! j))\<rparr>]\<rparr>"

text \<open>\<open>document.querySelectorAll(".play-btn").forEach(btn => { if (btn !== toggle)
  btn.checked = false })\<close>, \<open>toggle\<close> being the checkbox of card \<open>i\<close>.\<close>

definition uncheck_others :: "nat \<Rightarrow> meduza_horizontal \<Rightarrow> meduza_horizontal" where
  "uncheck_others i s =
     s\<lparr>card_elements :=
         map (\<lambda>k. if k \<noteq> i
                   then (card_elements s ! k)\<lparr>toggle := map_option (\<lambda>c. False) (toggle (card_elements s ! k))\<rparr>
                   else card_elements s ! k)
           [0..<length (card_elements s)]\<rparr>"

text \<open>The first \<open>if\<close> of the change handler of card \<open>i\<close>.\<close>

definition pausePrevious :: "nat \<Rightarrow> meduza_horizontal \<Rightarrow> meduza_horizontal" where
  "pausePrevious i s =
     (case currentAudio s of
        None \<Rightarrow> s
      | Some j \<Rightarrow>
          if j \<noteq> i
          then uncheck_others i
                 (on_audio j (\<lambda>a. a\<lparr>currentTime := 0\<rparr>) (on_audio j (\<lambda>a. a\<lparr>paused := True\<rparr>) s))
          else s)"

text \<open>
  What \<open>audio.play()\<close> does before it returns its promise is decided by the browser:
  playback is started (\<open>paused\<close> becomes false), or it is refused and the element is left
  as it is. The promise is settled later, by \<open>playThen\<close> or \<open>playCatch\<close>.
\<close>

datatype play_result = Started | Refused

definition play :: "nat \<Rightarrow> play_result \<Rightarrow> meduza_horizontal \<Rightarrow> meduza_horizontal" where
  "play i r s = (case r of Started \<Rightarrow> on_audio i (\<lambda>a. a\<lparr>paused := False\<rparr>) s | Refused \<Rightarrow> s)"

definition onToggleChange :: "nat \<Rightarrow> play_result \<Rightarrow> meduza_horizontal \<Rightarrow> error + meduza_horizontal" where
  "onToggleChange i r s =
     (let s1 = pausePrevious i s
      in if toggle (card_elements s1 ! i) = Some True then Inr (play i r s1)
         else stopBeatPulse (on_audio i (\<lambda>a. a\<lparr>paused := True\<rparr>) s1))"

definition playThen :: "nat \<Rightarrow> meduza_horizontal \<Rightarrow> meduza_horizontal" where
  "playThen i s = startBeatPulse 124 (s\<lparr>currentAudio := Some i\<rparr>)"

definition playCatch :: "nat \<Rightarrow> meduza_horizontal \<Rightarrow> meduza_horizontal" where
  "playCatch i s = set_checked i False (s\<lparr>console := console s @ [''Erreur lecture audio:'']\<rparr>)"

definition onEnded :: "nat \<Rightarrow> meduza_horizontal \<Rightarrow> error + meduza_horizontal" where
  "onEnded i s = stopBeatPulse (set_checked i False s)"

text \<open>
  The events of the gallery: the user switches the checkbox of a card (the browser flips
  \<open>checked\<close>, then runs the change handler), a promise of \<open>play\<close> is fulfilled or
  rejected, an audio reaches its end (the browser pauses it, then runs the handler).
\<close>

datatype mh_event = ToggleChange nat play_result | PlayFulfilled nat | PlayRejected nat | AudioEnded nat

definition userSwitches :: "nat \<Rightarrow> meduza_horizontal \<Rightarrow> meduza_horizontal" where
  "userSwitches i s =
     s\<lparr>card_elements := (card_elements s)
         [i := (card_elements s ! i)\<lparr>toggle := map_option Not (toggle (card_elements s ! i))\<rparr>]\<rparr>"

fun fire_mh :: "mh_event \<Rightarrow> meduza_horizontal \<Rightarrow> error + meduza_horizontal" where
  "fire_mh (ToggleChange i r) s =
     (if hasHandlers i s then onToggleChange i r (userSwitches i s) else Inr s)"
| "fire_mh (PlayFulfilled i) s = (if hasHandlers i s then Inr (playThen i s) else Inr s)"
| "fire_mh (PlayRejected i) s = (if hasHandlers i s then Inr (playCatch i s) else Inr s)"
| "fire_mh (AudioEnded i) s =
     (if hasHandlers i s then onEnded i (on_audio i (\<lambda>a. a\<lparr>paused := True\<rparr>) s) else Inr s)"

fun run_mh :: "mh_event list \<Rightarrow> meduza_horizontal \<Rightarrow> error + meduza_horizontal" where
  "run_mh [] s = Inr s"
| "run_mh (ev # evs) s = and_then (fire_mh ev s) (run_mh evs)"

text \<open>The three guarded blocks \<open>if (r) { r.kill(); r = null }\<close> of \<open>stopBeatPulse\<close>,
  as functions on the state.\<close>

definition clearBeat :: "meduza_horizontal \<Rightarrow> meduza_horizontal" where
  "clearBeat s = (case beatTween s of None \<Rightarrow> s | Some k \<Rightarrow> (kill k s)\<lparr>beatTween := None\<rparr>)"

definition clearColor :: "meduza_horizontal \<Rightarrow> meduza_horizontal" where
  "clearColor s =
     (case beatColorTween s of None \<Rightarrow> s | Some k \<Rightarrow> (kill k s)\<lparr>beatColorTween := None\<rparr>)"

definition clearCards :: "meduza_horizontal \<Rightarrow> meduza_horizontal" where
  "clearCards s =
     (case cardsBeatTween s of None \<Rightarrow> s | Some k \<Rightarrow> (kill k s)\<lparr>cardsBeatTween := None\<rparr>)"

text \<open>The fields that the beat pulse reads and writes.\<close>

definition pulse_part ::
  "meduza_horizontal \<Rightarrow> nat option \<times> nat option \<times> nat option \<times> (nat \<times> tween) list \<times> nat" where
  "pulse_part s =
     (beatTween s, beatColorTween s, cardsBeatTween s, engine_tweens s, next_tween_mh s)"

text \<open>The audio of card \<open>k\<close> is playing when it is not paused; \<open>playing\<close> lists the
  cards whose audio is.\<close>

definition unpaused :: "meduza_horizontal \<Rightarrow> nat \<Rightarrow> bool" where
  "unpaused s k \<longleftrightarrow> map_option paused (audio (card_elements s ! k)) = Some False"







text \<open>The looping tweens alive in the engine are the three the gallery holds, or there is
  none and the gallery holds none.\<close>

definition pulse_inv :: "meduza_horizontal \<Rightarrow> bool" where
  "pulse_inv s \<longleftrightarrow>
     (case (beatTween s, beatColorTween s, cardsBeatTween s) of
        (Some a, Some b, Some c) \<Rightarrow> map fst (loop_tweens s) = [a, b, c]
      | (None, None, None) \<Rightarrow> loop_tweens s = []
      | _ \<Rightarrow> False)"

section \<open>main.js: the application\<close>

text \<open>
  The controllers that \<open>initializeAnimations\<close> pushes to \<open>this.animations\<close>. The classes
  \<open>HorizontalScroll\<close> and \<open>ComplexHorizontal\<close> define a method \<open>destroy\<close>; the class
  \<open>MeduzaHorizontal\<close> defines none, so \<open>typeof animation.destroy === "function"\<close> is false
  for it and a call of \<open>destroy\<close> on it throws a TypeError.
\<close>

datatype controller =
    Horizontal horizontal_scroll
  | Complex complex_horizontal
  | Meduza meduza_horizontal

fun has_destroy :: "controller \<Rightarrow> bool" where
  "has_destroy (Horizontal h) = True"
| "has_destroy (Complex c) = True"
| "has_destroy (Meduza m) = False"

fun call_destroy :: "controller \<Rightarrow> error + controller" where
  "call_destroy (Horizontal h) = and_then (HorizontalScroll_destroy h) (\<lambda>h'. Inr (Horizontal h'))"
| "call_destroy (Complex c) = and_then (ComplexHorizontal_destroy c) (\<lambda>c'. Inr (Complex c'))"
| "call_destroy (Meduza m) = Inl (TypeError ''destroy is not a function'')"

record document =
  marker_home :: bool
  marker_complex :: bool
  marker_meduza :: bool
  doc_horizontal :: horizontal_page
  doc_complex :: complex_page
  doc_meduza :: meduza_page

record app =
  animations :: "controller list"
  app_lenis :: "lenis_scroll option"

definition initializeAnimations :: "document \<Rightarrow> controller list" where
  "initializeAnimations doc =
     (if marker_home doc then [Horizontal (new_HorizontalScroll (doc_horizontal doc))] else []) @
     (if marker_complex doc then [Complex (new_ComplexHorizontal (doc_complex doc))] else []) @
     (if marker_meduza doc then [Meduza (new_MeduzaHorizontal (doc_meduza doc))] else [])"

definition App_setup :: "document \<Rightarrow> app" where
  "App_setup doc = \<lparr>animations = initializeAnimations doc, app_lenis = Some new_LenisScroll\<rparr>"

text \<open>The \<open>forEach\<close> of \<open>App.destroy\<close> over \<open>this.animations\<close>, stopping at the first throw.\<close>

fun destroy_each :: "controller list \<Rightarrow> error + controller list" where
  "destroy_each [] = Inr []"
| "destroy_each (a # as) =
     and_then (if has_destroy a then call_destroy a else Inr a)
       (\<lambda>a'. and_then (destroy_each as) (\<lambda>as'. Inr (a' # as')))"

text \<open>\<open>ScrollTrigger.getAll().forEach((trigger) => trigger.kill())\<close>.\<close>

fun kill_triggers :: "controller \<Rightarrow> controller" where
  "kill_triggers (Horizontal h) = Horizontal (h\<lparr>scrollTrigger := map_option (\<lambda>t. False) (scrollTrigger h)\<rparr>)"
| "kill_triggers (Complex c) = Complex (c\<lparr>live_triggers := []\<rparr>)"
| "kill_triggers (Meduza m) = Meduza (m\<lparr>created_triggers := 0\<rparr>)"

definition App_destroy :: "app \<Rightarrow> error + app" where
  "App_destroy a =
     and_then (destroy_each (animations a))
       (\<lambda>as. and_then
          (if app_lenis a \<noteq> None
           then and_then (invoke (app_lenis a) LenisScroll_destroy) (\<lambda>r. and_then r (\<lambda>l. Inr (Some l)))
           else Inr (app_lenis a))
          (\<lambda>l. Inr \<lparr>animations = map kill_triggers as, app_lenis = l\<rparr>))"

section \<open>Concrete pages\<close>

text \<open>A page on which every element the scroller queries is present.\<close>

definition demo_geometry :: img_geometry where
  "demo_geometry =
     \<lparr>rect_left = 100, rect_top = 50, rect_width = 320, rect_height = 200,
      offsetWidth = 300, offsetHeight = 180\<rparr>"

definition demo_page :: complex_page where
  "demo_page =
     \<lparr>page_app = True, page_marquee = True, page_marquee_track = True, page_horizontal = True,
      page_horizontal_wrapper = True, page_marquee_items = 4, page_horizontal_slides = 3,
      page_pin_item = True, page_pin_item_img = True,
      page_color_light = \<lparr>red = 240, green = 240, blue = 230, alpha = 1\<rparr>,
      page_color_dark = \<lparr>red = 20, green = 20, blue = 20, alpha = 1\<rparr>\<rparr>"

definition demo_slides :: "slide list" where
  "demo_slides =
     [\<lparr>slide_id = 10, has_title = True, has_img = True, title_y = None, img_x = None, img_scale = None\<rparr>,
      \<lparr>slide_id = 11, has_title = True, has_img = True, title_y = None, img_x = None, img_scale = None\<rparr>,
      \<lparr>slide_id = 12, has_title = False, has_img = True, title_y = None, img_x = None, img_scale = None\<rparr>]"

definition demo_horizontal_page :: horizontal_page where
  "demo_horizontal_page =
     \<lparr>page_sticky = True, page_slides_container = True, page_slider = True,
      page_slides = demo_slides, page_innerHeight = 800, page_slides_container_width = 3600,
      page_slider_width = 1200\<rparr>"

text \<open>Three cards with an audio and a checkbox each, nothing playing.\<close>

definition demo_meduza_page :: meduza_page where
  "demo_meduza_page =
     \<lparr>page_app_mh = True, page_pin_section = True,
      page_cards =
        [\<lparr>audio = Some \<lparr>paused = True, currentTime = 0\<rparr>, toggle = Some False\<rparr>,
         \<lparr>audio = Some \<lparr>paused = True, currentTime = 0\<rparr>, toggle = Some False\<rparr>,
         \<lparr>audio = Some \<lparr>paused = True, currentTime = 0\<rparr>, toggle = Some False\<rparr>]\<rparr>"

text \<open>The gallery while the first card has been playing for 42 seconds: its checkbox is
  checked, it is the current audio, and the three looping tweens of the pulse are alive.\<close>

definition demo_playing :: meduza_horizontal where
  "demo_playing =
     (startBeatPulse 124 (new_MeduzaHorizontal demo_meduza_page))
       \<lparr>currentAudio := Some 0,
        card_elements :=
          [\<lparr>audio = Some \<lparr>paused = False, currentTime = 42\<rparr>, toggle = Some True\<rparr>,
           \<lparr>audio = Some \<lparr>paused = True, currentTime = 0\<rparr>, toggle = Some False\<rparr>,
           \<lparr>audio = Some \<lparr>paused = True, currentTime = 0\<rparr>, toggle = Some False\<rparr>]\<rparr>"

text \<open>A document that carries the markers of all three controllers.\<close>

definition demo_document :: document where
  "demo_document =
     \<lparr>marker_home = True, marker_complex = True, marker_meduza = True,
      doc_horizontal = demo_horizontal_page, doc_complex = demo_page,
      doc_meduza = demo_meduza_page\<rparr>"

section \<open>Properties of the phase dispatcher\<close>

lemma uB_alt:
  "updateBackgroundColor p s =
     (if container s then s\<lparr>container_backgroundColor := backgroundFor p (lightColor s) (darkColor s)\<rparr> else s)"
  unfolding updateBackgroundColor_def backgroundFor_def Let_def by simp

lemma uF_alt:
  "updateFlipAnimation p s =
     (case flipAnimation s of None \<Rightarrow> s
      | Some f \<Rightarrow> s\<lparr>flipAnimation := Some (f\<lparr>flip_progress := scrubFor p\<rparr>)\<rparr>)"
  unfolding updateFlipAnimation_def scrubFor_def Let_def by (simp split: option.split)

lemma mW_mC: "moveWrapper v (moveClone w s) = moveClone w (moveWrapper v s)"
  by (simp add: moveWrapper_def moveClone_def split: option.split)

lemma uH_alt:
  "updateHorizontalScroll p s =
     (if 0.2 < p then moveClone (cloneFor p) (moveWrapper (wrapperFor p) s) else s)"
proof (cases "0.2 < p")
  case False
  then show ?thesis unfolding updateHorizontalScroll_def by simp
next
  case True
  show ?thesis
  proof (cases "p \<le> 0.95")
    case True
    with \<open>0.2 < p\<close> show ?thesis
      unfolding updateHorizontalScroll_def wrapperFor_def cloneFor_def Let_def by simp
  next
    case False
    with \<open>0.2 < p\<close> show ?thesis
      unfolding updateHorizontalScroll_def wrapperFor_def cloneFor_def Let_def by (simp add: mW_mC)
  qed
qed


lemma uB_uB: "updateBackgroundColor p (updateBackgroundColor q s) = updateBackgroundColor p s"
  unfolding uB_alt by simp

lemma uF_uF: "updateFlipAnimation p (updateFlipAnimation q s) = updateFlipAnimation p s"
  unfolding uF_alt by (simp split: option.split)

lemma mW_mW: "moveWrapper v (moveWrapper w s) = moveWrapper v s"
  by (simp add: moveWrapper_def)

lemma mC_mC: "moveClone v (moveClone w s) = moveClone v s"
  by (simp add: moveClone_def split: option.split)

lemma uB_uF: "updateBackgroundColor p (updateFlipAnimation q s) = updateFlipAnimation q (updateBackgroundColor p s)"
  unfolding uF_alt uB_alt by (simp split: option.split)

lemma uB_mW: "updateBackgroundColor p (moveWrapper w s) = moveWrapper w (updateBackgroundColor p s)"
  unfolding uB_alt moveWrapper_def by simp

lemma uB_mC: "updateBackgroundColor p (moveClone c s) = moveClone c (updateBackgroundColor p s)"
  unfolding uB_alt moveClone_def by (simp split: option.split)

lemma uF_mW: "updateFlipAnimation p (moveWrapper w s) = moveWrapper w (updateFlipAnimation p s)"
  unfolding uF_alt moveWrapper_def by (simp split: option.split)

lemma uF_mC: "updateFlipAnimation p (moveClone c s) = moveClone c (updateFlipAnimation p s)"
  unfolding uF_alt moveClone_def by (simp split: option.split)

lemmas phase_rewrites = uB_uB uF_uF mW_mW mC_mC uB_uF uB_mW uB_mC uF_mW uF_mC mW_mC

lemma update_absorbs:
  assumes "0.2 < p"
  shows "handleMainScrollUpdate p (handleMainScrollUpdate q s) = handleMainScrollUpdate p s"
proof (cases "0.2 < q")
  case True
  with assms show ?thesis unfolding handleMainScrollUpdate_def uH_alt by (simp add: phase_rewrites)
next
  case False
  with assms show ?thesis unfolding handleMainScrollUpdate_def uH_alt by (simp add: phase_rewrites)
qed

lemma feed_snoc: "feed (ps @ [p]) s = handleMainScrollUpdate p (feed ps s)"
  by (induction ps arbitrary: s) simp_all

lemma feed_last:
  "0.2 < p \<Longrightarrow> feed (ps @ [p]) s = handleMainScrollUpdate p s"
proof (induction ps arbitrary: s)
  case Nil
  show ?case by simp
next
  case (Cons q ps)
  from Cons.prems have "feed ((q # ps) @ [p]) s = handleMainScrollUpdate p (handleMainScrollUpdate q s)"
    using Cons.IH [of "handleMainScrollUpdate q s"] by simp
  with Cons.prems show ?case by (simp add: update_absorbs)
qed

lemma bg_of_update:
  "container_backgroundColor (handleMainScrollUpdate p s) =
     (if container s then backgroundFor p (lightColor s) (darkColor s) else container_backgroundColor s)"
  unfolding handleMainScrollUpdate_def uH_alt uF_alt uB_alt moveWrapper_def moveClone_def
  by (simp split: option.split)

lemma scrub_of_update:
  "map_option flip_progress (flipAnimation (handleMainScrollUpdate p s)) =
     map_option (\<lambda>f. scrubFor p) (flipAnimation s)"
  unfolding handleMainScrollUpdate_def uH_alt uF_alt uB_alt moveWrapper_def moveClone_def
  by (simp split: option.split)

lemma wrapper_of_update:
  "horizontalWrapper_x (handleMainScrollUpdate p s) =
     (if horizontalWrapper s \<and> 0.2 < p then Some (wrapperFor p) else horizontalWrapper_x s)"
  unfolding handleMainScrollUpdate_def uH_alt uF_alt uB_alt moveWrapper_def moveClone_def
  by (simp split: option.split)

lemma clone_of_update:
  "map_option clone_x (pinnedImgClone (handleMainScrollUpdate p s)) =
     (if 0.2 < p then map_option (\<lambda>c. Some (cloneFor p)) (pinnedImgClone s)
      else map_option clone_x (pinnedImgClone s))"
  unfolding handleMainScrollUpdate_def uH_alt uF_alt uB_alt moveWrapper_def moveClone_def
  by (simp split: option.split)

lemma update_keeps:
  "container (handleMainScrollUpdate p s) = container s"
  "lightColor (handleMainScrollUpdate p s) = lightColor s"
  "darkColor (handleMainScrollUpdate p s) = darkColor s"
  "horizontalWrapper (handleMainScrollUpdate p s) = horizontalWrapper s"
  "(flipAnimation (handleMainScrollUpdate p s) = None) = (flipAnimation s = None)"
  "(pinnedImgClone (handleMainScrollUpdate p s) = None) = (pinnedImgClone s = None)"
  unfolding handleMainScrollUpdate_def uH_alt uF_alt uB_alt moveWrapper_def moveClone_def
  by (simp_all split: option.split)

lemma bg_absorbs:
  "container_backgroundColor (handleMainScrollUpdate p (handleMainScrollUpdate q s)) =
     container_backgroundColor (handleMainScrollUpdate p s)"
  by (simp add: bg_of_update update_keeps)

lemma scrub_absorbs:
  "map_option flip_progress (flipAnimation (handleMainScrollUpdate p (handleMainScrollUpdate q s))) =
     map_option flip_progress (flipAnimation (handleMainScrollUpdate p s))"
proof -
  have "map_option (\<lambda>f. scrubFor p) (flipAnimation (handleMainScrollUpdate q s)) =
        map_option (\<lambda>f. scrubFor p) (flipAnimation s)"
    using update_keeps(5) [of q s]
    by (cases "flipAnimation (handleMainScrollUpdate q s)"; cases "flipAnimation s") simp_all
  then show ?thesis by (simp add: scrub_of_update)
qed

lemma feed_last_bg:
  "container_backgroundColor (feed (ps @ [p]) s) = container_backgroundColor (handleMainScrollUpdate p s)"
proof (induction ps arbitrary: s)
  case Nil
  show ?case by simp
next
  case (Cons q ps)
  show ?case using Cons.IH [of "handleMainScrollUpdate q s"] by (simp add: bg_absorbs)
qed

lemma feed_last_scrub:
  "map_option flip_progress (flipAnimation (feed (ps @ [p]) s)) =
     map_option flip_progress (flipAnimation (handleMainScrollUpdate p s))"
proof (induction ps arbitrary: s)
  case Nil
  show ?case by simp
next
  case (Cons q ps)
  show ?case using Cons.IH [of "handleMainScrollUpdate q s"] by (simp add: scrub_absorbs)
qed

subsection \<open>Path independence (C1)\<close>

text \<open>
  Claim C1, as the code has it. \<open>feed ps s\<close> is the state after the update calls with
  the progress values \<open>ps\<close>, in order, from the state \<open>s\<close>. For every progress
  \<open>p > 0.2\<close> the visual state (background colour, scrub position of the shape morph,
  wrapper translation, clone translation) after any sequence of updates that ends with
  \<open>p\<close> is the visual state after the single update with \<open>p\<close>. For every \<open>p\<close>
  whatsoever this holds of the background colour and of the scrub position. In
  particular the sequence 0.3, 0.1, 0.3 ends in the same visual state as 0.3 alone.
\<close>

theorem dispatcher_path_independence:
  "(0.2 < p \<longrightarrow> visual_state (feed (ps @ [p]) s) = visual_state (feed [p] s))
   \<and> container_backgroundColor (feed (ps @ [p]) s) = container_backgroundColor (feed [p] s)
   \<and> map_option flip_progress (flipAnimation (feed (ps @ [p]) s)) =
       map_option flip_progress (flipAnimation (feed [p] s))
   \<and> visual_state (feed [0.3, 0.1, 0.3] s) = visual_state (feed [0.3] s)"
proof -
  have last: "feed (qs @ [r]) s = feed [r] s" if "0.2 < r" for qs r
    using feed_last [OF that, of qs s] by simp
  have "feed [0.3, 0.1, 0.3] s = feed ([0.3, 0.1] @ [0.3]) s" by simp
  also have "\<dots> = feed [0.3] s" by (rule last) simp
  finally have example: "feed [0.3, 0.1, 0.3] s = feed [0.3] s" .
  show ?thesis
    using last [of p ps] example by (simp add: feed_last_bg feed_last_scrub)
qed

text \<open>The theorem at the progress 0.7 after 0.5 and 0.1, on a scroller that has made its
  clone and its shape-morph animation.\<close>

theorem dispatcher_path_independence_witness:
  "(0.2::real) < 0.7
   \<and> visual_state (feed ([0.5, 0.1] @ [0.7])
         (run [CloneEnter demo_geometry, FlipEnter] (new_ComplexHorizontal demo_page))) =
      visual_state (feed [0.7]
         (run [CloneEnter demo_geometry, FlipEnter] (new_ComplexHorizontal demo_page)))"
  using dispatcher_path_independence
    [of "0.7" "[0.5, 0.1]" "run [CloneEnter demo_geometry, FlipEnter] (new_ComplexHorizontal demo_page)"]
  by simp

lemmas construct_defs = new_ComplexHorizontal_def fresh_ComplexHorizontal_def setupElements_def
  setupColors_def createMarqueeAnimation_def createHorizontalPinAnimation_def
  createCloneManagementTriggers_def createMainScrollAnimation_def register_def

lemma new_demo_page:
  "horizontalWrapper (new_ComplexHorizontal demo_page)"
  "container (new_ComplexHorizontal demo_page)"
  "horizontalWrapper_x (new_ComplexHorizontal demo_page) = None"
  "pinnedImgClone (new_ComplexHorizontal demo_page) = None"
  "flipAnimation (new_ComplexHorizontal demo_page) = None"
  "lightColor (new_ComplexHorizontal demo_page) = Some \<lparr>red = 240, green = 240, blue = 230, alpha = 1\<rparr>"
  "darkColor (new_ComplexHorizontal demo_page) = Some \<lparr>red = 20, green = 20, blue = 20, alpha = 1\<rparr>"
  by (simp_all add: construct_defs demo_page_def Let_def)

text \<open>
  For \<open>p \<le> 0.2\<close> the statement fails: \<open>updateHorizontalScroll\<close> has no branch for
  such a progress, so the wrapper keeps the translation of the last update above 0.2.
  After the updates 0.5, 0.1 the wrapper is at \<open>-26.668%\<close>; after the single update 0.1 it
  has no translation.
\<close>

theorem dispatcher_path_dependent_below_phase3:
  "visual_state (feed [0.5, 0.1] (new_ComplexHorizontal demo_page)) \<noteq>
   visual_state (feed [0.1] (new_ComplexHorizontal demo_page))"
  by (simp add: visual_state_def wrapper_of_update new_demo_page update_keeps wrapperFor_def)

subsection \<open>Background colour (C4)\<close>

lemma interpolate_start: "interpolate a b 0 = a"
  by (simp add: interpolate_def)

lemma interpolate_end: "interpolate a b 1 = b"
  by (simp add: interpolate_def)

lemma backgroundFor_Some:
  "backgroundFor p (Some l) (Some d) = Some (interpolate l d (min (p / 0.05) 1))"
proof (cases "p \<le> 0.05")
  case True
  then show ?thesis by (simp add: backgroundFor_def)
next
  case False
  then have "min (p / 0.05) 1 = 1" by simp
  with False show ?thesis by (simp add: backgroundFor_def interpolate_end)
qed

text \<open>
  Claim C4. On a scroller with a container, the background colour after the update with
  progress \<open>p\<close> is the colour interpolated from light to dark with parameter
  \<open>min (p / 0.05) 1\<close>, both for \<open>updateBackgroundColor\<close> alone and for the whole
  dispatcher. At \<open>p = 0\<close> it is the light colour, at every \<open>p \<ge> 0.05\<close> it is the dark
  colour, and at \<open>p = 0.025\<close> it is the colour half way between the two.
\<close>

theorem background_color_phase:
  assumes "container s" and "lightColor s = Some l" and "darkColor s = Some d"
  shows "container_backgroundColor (updateBackgroundColor p s) =
           Some (interpolate l d (min (p / 0.05) 1))
     \<and> container_backgroundColor (handleMainScrollUpdate p s) =
           Some (interpolate l d (min (p / 0.05) 1))
     \<and> container_backgroundColor (handleMainScrollUpdate 0 s) = Some l
     \<and> (0.05 \<le> p \<longrightarrow> container_backgroundColor (handleMainScrollUpdate p s) = Some d)
     \<and> container_backgroundColor (handleMainScrollUpdate 0.025 s) = Some (interpolate l d 0.5)"
proof -
  have phase: "container_backgroundColor (updateBackgroundColor r s) =
                 Some (interpolate l d (min (r / 0.05) 1))" for r
    using assms by (simp add: uB_alt backgroundFor_Some)
  have whole: "container_backgroundColor (handleMainScrollUpdate r s) =
                 Some (interpolate l d (min (r / 0.05) 1))" for r
    using assms by (simp add: bg_of_update backgroundFor_Some)
  have at_start: "container_backgroundColor (handleMainScrollUpdate 0 s) = Some l"
    by (simp add: whole interpolate_start)
  have beyond: "container_backgroundColor (handleMainScrollUpdate p s) = Some d" if "0.05 \<le> p"
  proof -
    from that have "min (p / 0.05) 1 = 1" by simp
    then show ?thesis by (simp add: whole interpolate_end)
  qed
  have halfway: "container_backgroundColor (handleMainScrollUpdate 0.025 s) = Some (interpolate l d 0.5)"
    by (simp add: whole)
  from phase whole at_start beyond halfway show ?thesis by blast
qed

theorem background_color_phase_witness:
  "container (new_ComplexHorizontal demo_page)
   \<and> container_backgroundColor (handleMainScrollUpdate 0 (new_ComplexHorizontal demo_page)) =
        Some \<lparr>red = 240, green = 240, blue = 230, alpha = 1\<rparr>
   \<and> container_backgroundColor (handleMainScrollUpdate 0.05 (new_ComplexHorizontal demo_page)) =
        Some \<lparr>red = 20, green = 20, blue = 20, alpha = 1\<rparr>
   \<and> container_backgroundColor (handleMainScrollUpdate 0.025 (new_ComplexHorizontal demo_page)) =
        Some \<lparr>red = 130, green = 130, blue = 125, alpha = 1\<rparr>"
  using background_color_phase [OF new_demo_page(2) new_demo_page(6) new_demo_page(7), of "0.05"]
  by (simp add: new_demo_page interpolate_def)

subsection \<open>Translation of the horizontal wrapper (C2)\<close>

lemma wrapperFor_mid: "p \<le> 0.95 \<Longrightarrow> wrapperFor p = Percent (- 66.67 * (p - 0.2) / 0.75)"
  by (simp add: wrapperFor_def)

lemma wrapperFor_end: "0.95 \<le> p \<Longrightarrow> wrapperFor p = Percent (- 66.67)"
  by (cases "p = 0.95") (simp_all add: wrapperFor_def)

lemma wrapperFor_Percent: "wrapperFor p = Percent (wrapperPercent p)"
  by (simp add: wrapperFor_def wrapperPercent_def)

lemma wrapperPercent_range: "0.2 < p \<Longrightarrow> - 66.67 \<le> wrapperPercent p \<and> wrapperPercent p < 0"
  by (simp add: wrapperPercent_def)

lemma wrapperPercent_mono: "0.2 < p \<Longrightarrow> p \<le> q \<Longrightarrow> wrapperPercent q \<le> wrapperPercent p"
  by (simp add: wrapperPercent_def)

lemma reset_wrapper:
  "horizontalWrapper s \<Longrightarrow> horizontalWrapper_x (resetFlipAnimation s) = Some (Percent 0)"
  by (simp add: resetFlipAnimation_def killFlipAnimation_def Let_def split: option.split)

text \<open>
  Claim C2, as the code has it. On a scroller with a horizontal wrapper, the update with a
  progress \<open>p \<le> 0.2\<close>, so also with \<open>p = 0.2\<close>, leaves the wrapper translation as
  it was: it is \<open>0%\<close> at \<open>p = 0.2\<close> whenever it was \<open>0%\<close> before the update, as it is
  after \<open>resetFlipAnimation\<close>. The update sets the translation to
  \<open>-66.67 * ((p - 0.2) / 0.75)\<close> percent when \<open>0.2 < p < 0.95\<close> and to exactly \<open>-66.67\<close>
  percent when \<open>p \<ge> 0.95\<close>. For \<open>0.2 < p \<le> q\<close> the translation written at \<open>q\<close> is
  at most the one written at \<open>p\<close>, and both lie between \<open>-66.67\<close> percent and \<open>0\<close>
  percent.
\<close>

theorem wrapper_translation:
  assumes "horizontalWrapper s"
  shows "(p \<le> 0.2 \<longrightarrow>
            horizontalWrapper_x (handleMainScrollUpdate p s) = horizontalWrapper_x s)
     \<and> (horizontalWrapper_x s = Some (Percent 0) \<longrightarrow>
            horizontalWrapper_x (handleMainScrollUpdate 0.2 s) = Some (Percent 0))
     \<and> horizontalWrapper_x (handleMainScrollUpdate 0.2 (resetFlipAnimation s)) = Some (Percent 0)
     \<and> (0.2 < p \<and> p < 0.95 \<longrightarrow>
            horizontalWrapper_x (handleMainScrollUpdate p s) = Some (Percent (- 66.67 * ((p - 0.2) / 0.75))))
     \<and> (0.95 \<le> p \<longrightarrow> horizontalWrapper_x (handleMainScrollUpdate p s) = Some (Percent (- 66.67)))
     \<and> (0.2 < p \<and> p \<le> q \<longrightarrow>
          (\<exists>a b. horizontalWrapper_x (handleMainScrollUpdate p s) = Some (Percent a)
             \<and> horizontalWrapper_x (handleMainScrollUpdate q s) = Some (Percent b)
             \<and> - 66.67 \<le> b \<and> b \<le> a \<and> a < 0))"
proof -
  have kept: "horizontalWrapper_x (handleMainScrollUpdate r t) = horizontalWrapper_x t"
    if "r \<le> 0.2" for r t
    using that by (simp add: wrapper_of_update)
  have c0: "p \<le> 0.2 \<longrightarrow>
            horizontalWrapper_x (handleMainScrollUpdate p s) = horizontalWrapper_x s"
    using kept [of p s] by blast
  have c0a: "horizontalWrapper_x s = Some (Percent 0) \<longrightarrow>
            horizontalWrapper_x (handleMainScrollUpdate 0.2 s) = Some (Percent 0)"
    using kept [of "0.2" s] by simp
  have c0b: "horizontalWrapper_x (handleMainScrollUpdate 0.2 (resetFlipAnimation s)) = Some (Percent 0)"
    using kept [of "0.2" "resetFlipAnimation s"] reset_wrapper [OF assms] by simp
  have written: "horizontalWrapper_x (handleMainScrollUpdate r s) = Some (Percent (wrapperPercent r))"
    if "0.2 < r" for r
    using assms that by (simp add: wrapper_of_update wrapperFor_Percent)
  have c1: "0.2 < p \<and> p < 0.95 \<longrightarrow>
            horizontalWrapper_x (handleMainScrollUpdate p s) = Some (Percent (- 66.67 * ((p - 0.2) / 0.75)))"
    using assms by (simp add: wrapper_of_update wrapperFor_mid)
  have c2: "0.95 \<le> p \<longrightarrow> horizontalWrapper_x (handleMainScrollUpdate p s) = Some (Percent (- 66.67))"
    using assms by (simp add: wrapper_of_update wrapperFor_end)
  have c3: "0.2 < p \<and> p \<le> q \<longrightarrow>
          (\<exists>a b. horizontalWrapper_x (handleMainScrollUpdate p s) = Some (Percent a)
             \<and> horizontalWrapper_x (handleMainScrollUpdate q s) = Some (Percent b)
             \<and> - 66.67 \<le> b \<and> b \<le> a \<and> a < 0)"
  proof
    assume pq: "0.2 < p \<and> p \<le> q"
    then have q: "0.2 < q" by simp
    from pq have "wrapperPercent q \<le> wrapperPercent p" using wrapperPercent_mono [of p q] by blast
    moreover from q have "- 66.67 \<le> wrapperPercent q" using wrapperPercent_range [of q] by blast
    moreover from pq have "wrapperPercent p < 0" using wrapperPercent_range [of p] by blast
    ultimately show "\<exists>a b. horizontalWrapper_x (handleMainScrollUpdate p s) = Some (Percent a)
             \<and> horizontalWrapper_x (handleMainScrollUpdate q s) = Some (Percent b)
             \<and> - 66.67 \<le> b \<and> b \<le> a \<and> a < 0"
      using written [of p] written [of q] pq q by blast
  qed
  show ?thesis by (intro conjI c0 c0a c0b c1 c2 c3)
qed

theorem wrapper_translation_witness:
  "horizontalWrapper (new_ComplexHorizontal demo_page)
   \<and> horizontalWrapper_x (handleMainScrollUpdate 0.2
        (resetFlipAnimation (new_ComplexHorizontal demo_page))) = Some (Percent 0)
   \<and> horizontalWrapper_x (handleMainScrollUpdate 0.2 (new_ComplexHorizontal demo_page)) =
        horizontalWrapper_x (new_ComplexHorizontal demo_page)
   \<and> horizontalWrapper_x (handleMainScrollUpdate 0.5 (new_ComplexHorizontal demo_page)) =
        Some (Percent (- 26.668))
   \<and> horizontalWrapper_x (handleMainScrollUpdate 0.95 (new_ComplexHorizontal demo_page)) =
        Some (Percent (- 66.67))
   \<and> horizontalWrapper_x (handleMainScrollUpdate 1 (new_ComplexHorizontal demo_page)) =
        Some (Percent (- 66.67))"
  using wrapper_translation [OF new_demo_page(1), of "0.5" "0.8"]
    wrapper_translation [OF new_demo_page(1), of "0.95" 1]
    wrapper_translation [OF new_demo_page(1), of 1 1]
    wrapper_translation [OF new_demo_page(1), of "0.2" 1]
  by (simp add: new_demo_page)

text \<open>
  The translation is not \<open>0%\<close> at \<open>p = 0.2\<close> in general: after the update 0.5 the
  update 0.2 leaves the wrapper at \<open>-26.668%\<close>.
\<close>

theorem wrapper_not_reset_at_phase_start:
  "horizontalWrapper_x (handleMainScrollUpdate 0.2 (handleMainScrollUpdate 0.5
      (new_ComplexHorizontal demo_page))) \<noteq> Some (Percent 0)"
  by (simp add: wrapper_of_update new_demo_page update_keeps wrapperFor_def)

section \<open>Life cycle of the clone and of the shape-morph animation\<close>

lemma lifecycle_register: "lifecycle (register t s) = lifecycle s"
  by (simp add: lifecycle_def register_def)

lemma lifecycle_new: "lifecycle (new_ComplexHorizontal pg) = (None, False, None, [], [])"
proof -
  have 0: "lifecycle fresh_ComplexHorizontal = (None, False, None, [], [])"
    by (simp add: lifecycle_def fresh_ComplexHorizontal_def)
  have 1: "lifecycle (setupElements pg s) = lifecycle s" for s
    by (simp add: lifecycle_def setupElements_def Let_def)
  have 2: "lifecycle (setupColors pg s) = lifecycle s" for s
    by (simp add: lifecycle_def setupColors_def)
  have 3: "lifecycle (createMarqueeAnimation s) = lifecycle s" for s
    by (simp add: createMarqueeAnimation_def lifecycle_register)
  have 4: "lifecycle (createHorizontalPinAnimation s) = lifecycle s" for s
    by (simp add: createHorizontalPinAnimation_def lifecycle_register)
  have 5: "lifecycle (createCloneManagementTriggers s) = lifecycle s" for s
    by (simp add: createCloneManagementTriggers_def lifecycle_register)
  have 6: "lifecycle (createMainScrollAnimation s) = lifecycle s" for s
    by (simp add: createMainScrollAnimation_def lifecycle_register)
  show ?thesis unfolding new_ComplexHorizontal_def by (simp only: 0 1 2 3 4 5 6)
qed

lemma inv_new: "clone_inv (new_ComplexHorizontal pg)" "flip_inv (new_ComplexHorizontal pg)"
  using lifecycle_new [of pg] by (simp_all add: lifecycle_def clone_inv_def flip_inv_def)

lemma create_inv: "clone_inv s \<Longrightarrow> clone_inv (createPinnedImgClone g s)"
  by (simp add: clone_inv_def createPinnedImgClone_def Let_def)

lemma create_flip_inv: "flip_inv s \<Longrightarrow> flip_inv (createPinnedImgClone g s)"
  by (simp add: flip_inv_def createPinnedImgClone_def Let_def)

lemma remove_inv: "clone_inv s \<Longrightarrow> clone_inv (removePinnedImgClone s)"
  by (simp add: clone_inv_def removePinnedImgClone_def Let_def split: option.split)

lemma remove_flip_inv: "flip_inv s \<Longrightarrow> flip_inv (removePinnedImgClone s)"
  by (simp add: flip_inv_def removePinnedImgClone_def Let_def split: option.split)

lemma init_inv: "clone_inv s \<Longrightarrow> clone_inv (initializeFlipAnimation s)"
  by (simp add: clone_inv_def initializeFlipAnimation_def Let_def split: option.split)

lemma init_flip_inv: "flip_inv s \<Longrightarrow> flip_inv (initializeFlipAnimation s)"
  by (simp add: flip_inv_def initializeFlipAnimation_def Let_def split: option.split)

lemma reset_inv: "clone_inv s \<Longrightarrow> clone_inv (resetFlipAnimation s)"
  by (simp add: clone_inv_def resetFlipAnimation_def killFlipAnimation_def Let_def split: option.split)

lemma reset_flip_inv: "flip_inv s \<Longrightarrow> flip_inv (resetFlipAnimation s)"
  by (simp add: flip_inv_def resetFlipAnimation_def killFlipAnimation_def Let_def split: option.split)

lemma marquee_inv: "clone_inv s \<Longrightarrow> clone_inv (marqueeUpdate p s)"
  by (simp add: clone_inv_def marqueeUpdate_def Let_def)

lemma marquee_flip_inv: "flip_inv s \<Longrightarrow> flip_inv (marqueeUpdate p s)"
  by (simp add: flip_inv_def marqueeUpdate_def Let_def)

lemma update_inv: "clone_inv s \<Longrightarrow> clone_inv (handleMainScrollUpdate p s)"
  unfolding handleMainScrollUpdate_def uH_alt uF_alt uB_alt moveWrapper_def moveClone_def clone_inv_def
  by (simp split: option.split)

lemma update_flip_inv: "flip_inv s \<Longrightarrow> flip_inv (handleMainScrollUpdate p s)"
  unfolding handleMainScrollUpdate_def uH_alt uF_alt uB_alt moveWrapper_def moveClone_def flip_inv_def
  by (simp split: option.split)

lemma callback_inv: "clone_inv s \<Longrightarrow> clone_inv (callback ev s)"
  by (cases ev) (simp_all add: create_inv remove_inv init_inv reset_inv marquee_inv update_inv)

lemma callback_flip_inv: "flip_inv s \<Longrightarrow> flip_inv (callback ev s)"
  by (cases ev)
    (simp_all add: create_flip_inv remove_flip_inv init_flip_inv reset_flip_inv marquee_flip_inv
       update_flip_inv)

lemma run_inv: "clone_inv s \<Longrightarrow> clone_inv (run evs s)"
  by (induction evs arbitrary: s) (simp_all add: callback_inv)

lemma run_flip_inv: "flip_inv s \<Longrightarrow> flip_inv (run evs s)"
  by (induction evs arbitrary: s) (simp_all add: callback_flip_inv)

lemma create_noop: "isImgCloneActive s \<Longrightarrow> createPinnedImgClone g s = s"
  by (simp add: createPinnedImgClone_def)

lemma remove_noop: "\<not> isImgCloneActive s \<Longrightarrow> removePinnedImgClone s = s"
  by (simp add: removePinnedImgClone_def)

lemma create_guard_noop:
  "isImgCloneActive s \<or> \<not> pinnedMarqueeImg s \<Longrightarrow> createPinnedImgClone g s = s"
  by (simp add: createPinnedImgClone_def)

lemma create_activates:
  "\<not> (isImgCloneActive s \<or> \<not> pinnedMarqueeImg s) \<Longrightarrow> isImgCloneActive (createPinnedImgClone g s)"
  by (simp add: createPinnedImgClone_def Let_def)

lemma create_twice:
  "createPinnedImgClone g' (createPinnedImgClone g s) = createPinnedImgClone g s"
proof (cases "isImgCloneActive s \<or> \<not> pinnedMarqueeImg s")
  case True
  then show ?thesis by (simp only: create_guard_noop)
next
  case False
  then have "isImgCloneActive (createPinnedImgClone g s)" by (rule create_activates)
  then show ?thesis by (rule create_noop)
qed

lemma remove_inactive: "\<not> isImgCloneActive (removePinnedImgClone s)"
  by (simp add: removePinnedImgClone_def Let_def split: option.split)

lemma body_of_inv:
  "clone_inv s \<Longrightarrow> length (body_nodes s) = (if isImgCloneActive s then 1 else 0)"
  by (cases "pinnedImgClone s") (simp_all add: clone_inv_def)

text \<open>
  Claim C3. After any sequence of callbacks of the scroll triggers on a freshly constructed
  scroller, at most one clone node is attached to the body: exactly one while
  \<open>isImgCloneActive\<close> holds and none otherwise. \<open>createPinnedImgClone\<close> changes nothing
  while a clone is active, \<open>removePinnedImgClone\<close> changes nothing while none is, and
  calling either twice in a row is the same as calling it once.
\<close>

theorem at_most_one_clone:
  "length (body_nodes (run evs (new_ComplexHorizontal pg))) \<le> 1
   \<and> length (body_nodes (run evs (new_ComplexHorizontal pg))) =
       (if isImgCloneActive (run evs (new_ComplexHorizontal pg)) then 1 else 0)
   \<and> (isImgCloneActive s \<longrightarrow> createPinnedImgClone g s = s)
   \<and> (\<not> isImgCloneActive s \<longrightarrow> removePinnedImgClone s = s)
   \<and> createPinnedImgClone g' (createPinnedImgClone g s) = createPinnedImgClone g s
   \<and> removePinnedImgClone (removePinnedImgClone s) = removePinnedImgClone s"
proof -
  have "clone_inv (run evs (new_ComplexHorizontal pg))"
    by (rule run_inv) (rule inv_new)
  then have count: "length (body_nodes (run evs (new_ComplexHorizontal pg))) =
       (if isImgCloneActive (run evs (new_ComplexHorizontal pg)) then 1 else 0)"
    by (rule body_of_inv)
  then have bound: "length (body_nodes (run evs (new_ComplexHorizontal pg))) \<le> 1"
    by simp
  have again: "removePinnedImgClone (removePinnedImgClone s) = removePinnedImgClone s"
    by (rule remove_noop) (rule remove_inactive)
  have c3: "isImgCloneActive s \<longrightarrow> createPinnedImgClone g s = s"
    using create_noop [of s g] by blast
  have c4: "\<not> isImgCloneActive s \<longrightarrow> removePinnedImgClone s = s"
    using remove_noop [of s] by blast
  show ?thesis by (intro conjI bound count c3 c4 create_twice again)
qed

lemma demo_clone_state:
  "isImgCloneActive (new_ComplexHorizontal demo_page) = False"
  "pinnedMarqueeImg (new_ComplexHorizontal demo_page)"
  by (simp_all add: construct_defs demo_page_def Let_def)

theorem at_most_one_clone_witness:
  "isImgCloneActive (createPinnedImgClone demo_geometry (new_ComplexHorizontal demo_page))
   \<and> createPinnedImgClone demo_geometry
        (createPinnedImgClone demo_geometry (new_ComplexHorizontal demo_page)) =
      createPinnedImgClone demo_geometry (new_ComplexHorizontal demo_page)
   \<and> \<not> isImgCloneActive (new_ComplexHorizontal demo_page)
   \<and> removePinnedImgClone (new_ComplexHorizontal demo_page) = new_ComplexHorizontal demo_page
   \<and> length (body_nodes (run [CloneEnter demo_geometry, CloneEnterBack demo_geometry,
        CloneLeaveBack, CloneLeaveBack, CloneEnter demo_geometry]
        (new_ComplexHorizontal demo_page))) \<le> 1"
proof -
  let ?n = "new_ComplexHorizontal demo_page"
  let ?s = "createPinnedImgClone demo_geometry ?n"
  let ?evs = "[CloneEnter demo_geometry, CloneEnterBack demo_geometry,
        CloneLeaveBack, CloneLeaveBack, CloneEnter demo_geometry]"
  have active: "isImgCloneActive ?s"
    by (rule create_activates) (simp add: demo_clone_state)
  have inactive: "\<not> isImgCloneActive ?n"
    by (simp add: demo_clone_state)
  from active at_most_one_clone [of ?evs demo_page ?s demo_geometry demo_geometry]
  have create: "createPinnedImgClone demo_geometry ?s = ?s" by blast
  from inactive at_most_one_clone [of ?evs demo_page ?n demo_geometry demo_geometry]
  have remove: "removePinnedImgClone ?n = ?n" by blast
  from at_most_one_clone [of ?evs demo_page ?n demo_geometry demo_geometry]
  have bound: "length (body_nodes (run ?evs ?n)) \<le> 1" by blast
  show ?thesis by (intro conjI active create inactive remove bound)
qed

lemma init_changes_only_when:
  "initializeFlipAnimation s \<noteq> s \<Longrightarrow>
     pinnedImgClone s \<noteq> None \<and> isImgCloneActive s \<and> flipAnimation s = None"
  by (auto simp: initializeFlipAnimation_def split: option.splits if_splits)

lemma init_creates:
  assumes "pinnedImgClone s = Some c" "isImgCloneActive s" "flipAnimation s = None"
  shows "flipAnimation (initializeFlipAnimation s) =
           Some \<lparr>tween_id = next_tween s, flip_target = node_id c, flip_paused = True,
                 flip_progress = 0\<rparr>"
  using assms by (simp add: initializeFlipAnimation_def Let_def)

lemma init_has_animation:
  "initializeFlipAnimation s = s \<or> flipAnimation (initializeFlipAnimation s) \<noteq> None"
  by (simp add: initializeFlipAnimation_def Let_def split: option.split)

lemma init_noop: "flipAnimation s \<noteq> None \<Longrightarrow> initializeFlipAnimation s = s"
  by (simp add: initializeFlipAnimation_def split: option.split)

lemma init_twice: "initializeFlipAnimation (initializeFlipAnimation s) = initializeFlipAnimation s"
  using init_has_animation [of s] init_noop [of "initializeFlipAnimation s"] by auto

text \<open>
  Claim C9. After any sequence of callbacks on a freshly constructed scroller, at most one
  shape-morph animation is alive in the engine, and it is the one the scroller holds.
  \<open>initializeFlipAnimation\<close> changes the state only when a clone exists, the clone is
  active and no animation exists yet; it then creates a paused animation at progress 0
  whose target is that clone, a node attached to the body. Calling it twice in a row is
  the same as calling it once.
\<close>

theorem at_most_one_flip_animation:
  "length (live_tweens (run evs (new_ComplexHorizontal pg))) \<le> 1
   \<and> length (live_tweens (run evs (new_ComplexHorizontal pg))) =
       (if flipAnimation (run evs (new_ComplexHorizontal pg)) = None then 0 else 1)
   \<and> (initializeFlipAnimation s \<noteq> s \<longrightarrow>
         pinnedImgClone s \<noteq> None \<and> isImgCloneActive s \<and> flipAnimation s = None)
   \<and> (isImgCloneActive s \<and> flipAnimation s = None \<longrightarrow> (\<forall>c. pinnedImgClone s = Some c \<longrightarrow>
         flipAnimation (initializeFlipAnimation s) =
           Some \<lparr>tween_id = next_tween s, flip_target = node_id c, flip_paused = True,
                 flip_progress = 0\<rparr>))
   \<and> initializeFlipAnimation (initializeFlipAnimation s) = initializeFlipAnimation s
   \<and> (initializeFlipAnimation (run evs (new_ComplexHorizontal pg)) \<noteq> run evs (new_ComplexHorizontal pg) \<longrightarrow>
         (\<exists>f. flipAnimation (initializeFlipAnimation (run evs (new_ComplexHorizontal pg))) = Some f
            \<and> body_nodes (run evs (new_ComplexHorizontal pg)) = [flip_target f]))"
proof -
  let ?r = "run evs (new_ComplexHorizontal pg)"
  have fi: "flip_inv ?r" by (rule run_flip_inv) (rule inv_new)
  have ci: "clone_inv ?r" by (rule run_inv) (rule inv_new)
  from fi have count: "length (live_tweens ?r) = (if flipAnimation ?r = None then 0 else 1)"
    by (cases "flipAnimation ?r") (simp_all add: flip_inv_def)
  then have bound: "length (live_tweens ?r) \<le> 1" by simp
  have only: "initializeFlipAnimation s \<noteq> s \<longrightarrow>
         pinnedImgClone s \<noteq> None \<and> isImgCloneActive s \<and> flipAnimation s = None"
    using init_changes_only_when [of s] by blast
  have creates: "isImgCloneActive s \<and> flipAnimation s = None \<longrightarrow> (\<forall>c. pinnedImgClone s = Some c \<longrightarrow>
         flipAnimation (initializeFlipAnimation s) =
           Some \<lparr>tween_id = next_tween s, flip_target = node_id c, flip_paused = True,
                 flip_progress = 0\<rparr>)"
    using init_creates [of s] by blast
  have attached: "initializeFlipAnimation ?r \<noteq> ?r \<longrightarrow>
         (\<exists>f. flipAnimation (initializeFlipAnimation ?r) = Some f \<and> body_nodes ?r = [flip_target f])"
  proof
    assume "initializeFlipAnimation ?r \<noteq> ?r"
    then have g: "pinnedImgClone ?r \<noteq> None" "isImgCloneActive ?r" "flipAnimation ?r = None"
      using init_changes_only_when [of ?r] by blast+
    then obtain c where c: "pinnedImgClone ?r = Some c" by blast
    with ci have "body_nodes ?r = [node_id c]" by (simp add: clone_inv_def)
    with init_creates [OF c g(2) g(3)] show
      "\<exists>f. flipAnimation (initializeFlipAnimation ?r) = Some f \<and> body_nodes ?r = [flip_target f]"
      by simp
  qed
  show ?thesis by (intro conjI bound count only creates init_twice attached)
qed

theorem at_most_one_flip_animation_witness:
  "isImgCloneActive (createPinnedImgClone demo_geometry (new_ComplexHorizontal demo_page))
   \<and> flipAnimation (createPinnedImgClone demo_geometry (new_ComplexHorizontal demo_page)) = None
   \<and> flipAnimation (initializeFlipAnimation
        (createPinnedImgClone demo_geometry (new_ComplexHorizontal demo_page))) =
      Some \<lparr>tween_id = 0, flip_target = 0, flip_paused = True, flip_progress = 0\<rparr>
   \<and> length (live_tweens (run [CloneEnter demo_geometry, FlipEnter, FlipEnter, MainUpdate 0.1,
        FlipLeaveBack, FlipEnter, FlipEnter] (new_ComplexHorizontal demo_page))) \<le> 1"
proof -
  let ?n = "new_ComplexHorizontal demo_page"
  let ?s = "createPinnedImgClone demo_geometry ?n"
  let ?evs = "[CloneEnter demo_geometry, FlipEnter, FlipEnter, MainUpdate 0.1,
        FlipLeaveBack, FlipEnter, FlipEnter]"
  have active: "isImgCloneActive ?s"
    by (rule create_activates) (simp add: demo_clone_state)
  have new: "flipAnimation ?n = None" "next_tween ?n = 0" "next_node ?n = 0"
    by (simp_all add: construct_defs demo_page_def Let_def)
  have none: "flipAnimation ?s = None"
    using new by (simp add: createPinnedImgClone_def Let_def)
  have tw: "next_tween ?s = 0"
    using new by (simp add: createPinnedImgClone_def Let_def)
  obtain c where c: "pinnedImgClone ?s = Some c" "node_id c = 0"
    using new by (simp add: createPinnedImgClone_def Let_def demo_clone_state)
  from active none c(1) at_most_one_flip_animation [of ?evs demo_page ?s]
  have "flipAnimation (initializeFlipAnimation ?s) =
          Some \<lparr>tween_id = next_tween ?s, flip_target = node_id c, flip_paused = True,
                flip_progress = 0\<rparr>"
    by blast
  with tw c(2) have made: "flipAnimation (initializeFlipAnimation ?s) =
      Some \<lparr>tween_id = 0, flip_target = 0, flip_paused = True, flip_progress = 0\<rparr>"
    by simp
  from at_most_one_flip_animation [of ?evs demo_page ?s]
  have bound: "length (live_tweens (run ?evs ?n)) \<le> 1" by blast
  show ?thesis by (intro conjI active none made bound)
qed

section \<open>The visibility state machine of the single-axis scroller\<close>

lemma index_from_nth:
  "distinct (map slide_id sls) \<Longrightarrow> k < length sls \<Longrightarrow>
     index_from sls (slide_id (sls ! k)) i = i + int k"
proof (induction sls arbitrary: k i)
  case Nil
  then show ?case by simp
next
  case (Cons sl sls)
  show ?case
  proof (cases k)
    case 0
    then show ?thesis by simp
  next
    case (Suc m)
    with Cons.prems have m: "m < length sls" and d: "distinct (map slide_id sls)"
      and "slide_id (sls ! m) \<in> set (map slide_id sls)" and "slide_id sl \<notin> set (map slide_id sls)"
      by auto
    then have "slide_id sl \<noteq> slide_id (sls ! m)" by metis
    with Suc Cons.IH [OF d m, of "i + 1"] show ?thesis by simp
  qed
qed

lemma indexOf_nth:
  "distinct (map slide_id sls) \<Longrightarrow> k < length sls \<Longrightarrow> indexOf sls (slide_id (sls ! k)) = int k"
  by (simp add: indexOf_def index_from_nth)

lemma animateTitles_index: "currentVisibleIndex (animateTitles a s) = currentVisibleIndex s"
  by (simp add: animateTitles_def)

text \<open>
  Claim C8. Let an observer entry report a visible fraction below 0.25 for the slide at
  index \<open>k\<close>. If that slide is the active one, the active index becomes \<open>k - 1\<close>, or
  \<open>null\<close> when \<open>k = 0\<close>. If it is not the active one, the whole state, and with it the
  active index, stays as it is.
\<close>

theorem trailing_edge_hysteresis:
  assumes "distinct (map slide_id (slides s))"
    and "k < length (slides s)"
    and "target e = slide_id (slides s ! k)"
    and "intersectionRatio e < 0.25"
  shows "(currentVisibleIndex s = Some (int k) \<longrightarrow>
            currentVisibleIndex (handleIntersection [e] s) = (if k = 0 then None else Some (int k - 1)))
     \<and> (currentVisibleIndex s \<noteq> Some (int k) \<longrightarrow> handleIntersection [e] s = s)"
proof -
  from assms have idx: "indexOf (slides s) (target e) = int k"
    by (simp add: indexOf_nth)
  from assms(4) have low: "\<not> 0.25 \<le> intersectionRatio e" by simp
  have leaving: "currentVisibleIndex (handleIntersection [e] s) = (if k = 0 then None else Some (int k - 1))"
    if "currentVisibleIndex s = Some (int k)"
    using that idx low assms(4) by (simp add: handleEntry_def Let_def animateTitles_index)
  have other: "handleIntersection [e] s = s" if "currentVisibleIndex s \<noteq> Some (int k)"
    using that idx low by (simp add: handleEntry_def Let_def)
  from leaving other show ?thesis by blast
qed

lemmas construct_hs_defs = new_HorizontalScroll_def fresh_HorizontalScroll_def setupElements_hs_def
  setupDimensions_def setupInitialStates_def createIntersectionObserver_def createScrollAnimation_def


lemma new_demo_horizontal:
  "slides (new_HorizontalScroll demo_horizontal_page) =
     [\<lparr>slide_id = 10, has_title = True, has_img = True, title_y = Some (- 200), img_x = None, img_scale = None\<rparr>,
      \<lparr>slide_id = 11, has_title = True, has_img = True, title_y = Some (- 200), img_x = None, img_scale = None\<rparr>,
      \<lparr>slide_id = 12, has_title = False, has_img = True, title_y = None, img_x = None, img_scale = None\<rparr>]"
  "currentVisibleIndex (new_HorizontalScroll demo_horizontal_page) = None"
  by (simp_all add: construct_hs_defs demo_horizontal_page_def demo_slides_def Let_def)

lemma handleEntry_slides: "slides (handleEntry e s) = slides s"
  by (simp add: handleEntry_def animateTitles_def Let_def)

theorem trailing_edge_hysteresis_witness:
  "currentVisibleIndex
     (handleIntersection [\<lparr>target = 11, intersectionRatio = 0.3\<rparr>]
        (new_HorizontalScroll demo_horizontal_page)) = Some 1
   \<and> currentVisibleIndex
       (handleIntersection [\<lparr>target = 11, intersectionRatio = 0.1\<rparr>]
         (handleIntersection [\<lparr>target = 11, intersectionRatio = 0.3\<rparr>]
            (new_HorizontalScroll demo_horizontal_page))) = Some 0
   \<and> handleIntersection [\<lparr>target = 12, intersectionRatio = 0.1\<rparr>]
         (handleIntersection [\<lparr>target = 11, intersectionRatio = 0.3\<rparr>]
            (new_HorizontalScroll demo_horizontal_page)) =
       handleIntersection [\<lparr>target = 11, intersectionRatio = 0.3\<rparr>]
            (new_HorizontalScroll demo_horizontal_page)"
proof -
  let ?s = "handleIntersection [\<lparr>target = 11, intersectionRatio = 0.3\<rparr>]
              (new_HorizontalScroll demo_horizontal_page)"
  have sl: "slides ?s =
     [\<lparr>slide_id = 10, has_title = True, has_img = True, title_y = Some (- 200), img_x = None, img_scale = None\<rparr>,
      \<lparr>slide_id = 11, has_title = True, has_img = True, title_y = Some (- 200), img_x = None, img_scale = None\<rparr>,
      \<lparr>slide_id = 12, has_title = False, has_img = True, title_y = None, img_x = None, img_scale = None\<rparr>]"
    by (simp add: handleEntry_slides new_demo_horizontal)
  have cur: "currentVisibleIndex ?s = Some 1"
    by (simp add: handleEntry_def Let_def animateTitles_index new_demo_horizontal indexOf_def)
  have d: "distinct (map slide_id (slides ?s))" and l: "1 < length (slides ?s)" "2 < length (slides ?s)"
    using sl by simp_all
  have t1: "target \<lparr>target = 11, intersectionRatio = 0.1\<rparr> = slide_id (slides ?s ! 1)"
    and t2: "target \<lparr>target = 12, intersectionRatio = 0.1\<rparr> = slide_id (slides ?s ! 2)"
    using sl by simp_all
  have r: "intersectionRatio \<lparr>target = 11, intersectionRatio = 0.1\<rparr> < 0.25"
    "intersectionRatio \<lparr>target = 12, intersectionRatio = 0.1\<rparr> < 0.25"
    by simp_all
  from trailing_edge_hysteresis [OF d l(1) t1 r(1)] cur
  have a: "currentVisibleIndex (handleIntersection [\<lparr>target = 11, intersectionRatio = 0.1\<rparr>] ?s) = Some 0"
    by simp
  from trailing_edge_hysteresis [OF d l(2) t2 r(2)] cur
  have b: "handleIntersection [\<lparr>target = 12, intersectionRatio = 0.1\<rparr>] ?s = ?s"
    by simp
  show ?thesis by (intro conjI cur a b)
qed

section \<open>Tearing down\<close>

lemma and_then_Inr: "and_then (Inr x) f = f x"
  by (simp add: and_then_def)

lemma invoke_Some: "invoke (Some x) m = Inr (m x)"
  by (simp add: invoke_def)

lemma Lenis_destroy_total: "\<exists>l'. LenisScroll_destroy l = Inr l'"
  by (cases "lenis l") (simp_all add: LenisScroll_destroy_def invoke_Some)

lemma Horizontal_destroy_total: "\<exists>h'. HorizontalScroll_destroy h = Inr h'"
  by (cases "scrollTrigger h"; cases "observer h")
    (simp_all add: HorizontalScroll_destroy_def invoke_Some and_then_Inr Let_def)

lemma Complex_destroy_total: "\<exists>c'. ComplexHorizontal_destroy c = Inr c'"
  by (cases "flipAnimation c")
    (simp_all add: ComplexHorizontal_destroy_def invoke_Some and_then_Inr Let_def)

lemma guarded_destroy_total: "has_destroy a \<Longrightarrow> \<exists>a'. call_destroy a = Inr a'"
proof (cases a)
  case (Horizontal h)
  with Horizontal_destroy_total [of h] show ?thesis by (auto simp: and_then_Inr)
next
  case (Complex c)
  with Complex_destroy_total [of c] show ?thesis by (auto simp: and_then_Inr)
next
  case (Meduza m)
  assume "has_destroy a"
  with Meduza show ?thesis by simp
qed

lemma destroy_each_total: "\<exists>as'. destroy_each as = Inr as'"
proof (induction as)
  case Nil
  show ?case by simp
next
  case (Cons a as)
  then obtain as' where as': "destroy_each as = Inr as'" by blast
  show ?case
  proof (cases "has_destroy a")
    case True
    then obtain a' where "call_destroy a = Inr a'" using guarded_destroy_total by blast
    with True as' show ?thesis by (simp add: and_then_Inr)
  next
    case False
    with as' show ?thesis by (simp add: and_then_Inr)
  qed
qed

lemma App_destroy_total: "\<exists>a'. App_destroy a = Inr a'"
proof -
  obtain as where as: "destroy_each (animations a) = Inr as"
    using destroy_each_total by blast
  show ?thesis
  proof (cases "app_lenis a")
    case None
    with as show ?thesis by (simp add: App_destroy_def and_then_Inr)
  next
    case (Some l)
    obtain l' where "LenisScroll_destroy l = Inr l'" using Lenis_destroy_total by blast
    with as Some show ?thesis by (simp add: App_destroy_def and_then_Inr invoke_Some)
  qed
qed

text \<open>
  Claim C7, as the code has it. \<open>destroy\<close> of the smooth-scroll adapter, of the single-axis
  scroller and of the complex scroller returns without throwing, right after construction
  on any page and in fact in every state. The gallery has no \<open>destroy\<close>; \<open>App.destroy\<close>
  calls \<open>destroy\<close> only on the controllers that have one, and returns without throwing
  for every document.
\<close>

theorem destroy_after_construction:
  "(\<exists>l. LenisScroll_destroy new_LenisScroll = Inr l)
   \<and> (\<exists>h. HorizontalScroll_destroy (new_HorizontalScroll hp) = Inr h)
   \<and> (\<exists>c. ComplexHorizontal_destroy (new_ComplexHorizontal cp) = Inr c)
   \<and> (\<exists>l'. LenisScroll_destroy l = Inr l')
   \<and> (\<exists>h'. HorizontalScroll_destroy h = Inr h')
   \<and> (\<exists>c'. ComplexHorizontal_destroy c = Inr c')
   \<and> \<not> has_destroy (Meduza (new_MeduzaHorizontal mp))
   \<and> (\<exists>a. App_destroy (App_setup doc) = Inr a)"
  using Lenis_destroy_total Horizontal_destroy_total Complex_destroy_total App_destroy_total
  by simp

theorem destroy_after_construction_witness:
  "(\<exists>h. HorizontalScroll_destroy (new_HorizontalScroll demo_horizontal_page) = Inr h)
   \<and> (\<exists>c. ComplexHorizontal_destroy (new_ComplexHorizontal demo_page) = Inr c)
   \<and> \<not> has_destroy (Meduza (new_MeduzaHorizontal demo_meduza_page))
   \<and> (\<exists>a. App_destroy (App_setup demo_document) = Inr a)"
  using destroy_after_construction
    [of demo_horizontal_page demo_page new_LenisScroll "new_HorizontalScroll demo_horizontal_page"
        "new_ComplexHorizontal demo_page" demo_meduza_page demo_document]
  by blast

text \<open>Calling \<open>destroy\<close> on a freshly constructed gallery throws: the class has no such
  method.\<close>

theorem gallery_destroy_throws:
  "call_destroy (Meduza (new_MeduzaHorizontal demo_meduza_page)) =
     Inl (TypeError ''destroy is not a function'')"
  by simp

section \<open>The beat pulse of the gallery\<close>

lemma start_noop:
  "beatTween s \<noteq> None \<or> beatColorTween s \<noteq> None \<or> cardsBeatTween s \<noteq> None \<Longrightarrow>
     startBeatPulse bpm s = s"
  by (simp add: startBeatPulse_def)

lemma stop_alt: "stopBeatPulse s = Inr (settle (clearCards (clearColor (clearBeat s))))"
proof -
  have 1: "(if beatTween s \<noteq> None
            then invoke (beatTween s) (\<lambda>k. (kill k s)\<lparr>beatTween := None\<rparr>) else Inr s) =
           Inr (clearBeat s)" for s
    by (cases "beatTween s") (simp_all add: clearBeat_def invoke_Some)
  have 2: "(if beatColorTween s \<noteq> None
            then invoke (beatColorTween s) (\<lambda>k. (kill k s)\<lparr>beatColorTween := None\<rparr>) else Inr s) =
           Inr (clearColor s)" for s
    by (cases "beatColorTween s") (simp_all add: clearColor_def invoke_Some)
  have 3: "(if cardsBeatTween s \<noteq> None
            then invoke (cardsBeatTween s) (\<lambda>k. (kill k s)\<lparr>cardsBeatTween := None\<rparr>) else Inr s) =
           Inr (clearCards s)" for s
    by (cases "cardsBeatTween s") (simp_all add: clearCards_def invoke_Some)
  show ?thesis unfolding stopBeatPulse_def by (simp only: 1 2 3 and_then_Inr)
qed

lemma settle_fields:
  "beatTween (settle s) = beatTween s"
  "beatColorTween (settle s) = beatColorTween s"
  "cardsBeatTween (settle s) = cardsBeatTween s"
  "card_elements (settle s) = card_elements s"
  "currentAudio (settle s) = currentAudio s"
  "loop_tweens (settle s) = loop_tweens s"
  by (simp_all add: settle_def gsap_to_def loop_tweens_def)

lemma loop_tweens_kill: "loop_tweens (kill k s) = filter (\<lambda>kt. fst kt \<noteq> k) (loop_tweens s)"
  by (simp add: loop_tweens_def kill_def) metis

lemma loop_tweens_upd:
  "loop_tweens (s\<lparr>beatTween := x\<rparr>) = loop_tweens s"
  "loop_tweens (s\<lparr>beatColorTween := x\<rparr>) = loop_tweens s"
  "loop_tweens (s\<lparr>cardsBeatTween := x\<rparr>) = loop_tweens s"
  by (simp_all add: loop_tweens_def)

lemma clearBeat_fields:
  "beatTween (clearBeat s) = None"
  "beatColorTween (clearBeat s) = beatColorTween s"
  "cardsBeatTween (clearBeat s) = cardsBeatTween s"
  "card_elements (clearBeat s) = card_elements s"
  "currentAudio (clearBeat s) = currentAudio s"
  "set (loop_tweens (clearBeat s)) = {kt \<in> set (loop_tweens s). Some (fst kt) \<noteq> beatTween s}"
  by (cases "beatTween s"; simp add: clearBeat_def loop_tweens_kill loop_tweens_upd; simp add: kill_def)+

lemma clearColor_fields:
  "beatTween (clearColor s) = beatTween s"
  "beatColorTween (clearColor s) = None"
  "cardsBeatTween (clearColor s) = cardsBeatTween s"
  "card_elements (clearColor s) = card_elements s"
  "currentAudio (clearColor s) = currentAudio s"
  "set (loop_tweens (clearColor s)) = {kt \<in> set (loop_tweens s). Some (fst kt) \<noteq> beatColorTween s}"
  by (cases "beatColorTween s"; simp add: clearColor_def loop_tweens_kill loop_tweens_upd; simp add: kill_def)+

lemma clearCards_fields:
  "beatTween (clearCards s) = beatTween s"
  "beatColorTween (clearCards s) = beatColorTween s"
  "cardsBeatTween (clearCards s) = None"
  "card_elements (clearCards s) = card_elements s"
  "currentAudio (clearCards s) = currentAudio s"
  "set (loop_tweens (clearCards s)) = {kt \<in> set (loop_tweens s). Some (fst kt) \<noteq> cardsBeatTween s}"
  by (cases "cardsBeatTween s"; simp add: clearCards_def loop_tweens_kill loop_tweens_upd; simp add: kill_def)+

lemmas stop_fields = settle_fields clearBeat_fields clearColor_fields clearCards_fields


lemma stop_loops:
  "set (loop_tweens (settle (clearCards (clearColor (clearBeat s))))) =
     {kt \<in> set (loop_tweens s). Some (fst kt) \<notin> {beatTween s, beatColorTween s, cardsBeatTween s}}"
  by (auto simp: stop_fields)

lemma pulse_inv_part:
  assumes "pulse_part s = pulse_part s'"
  shows "pulse_inv s = pulse_inv s'"
proof -
  from assms have "loop_tweens s = loop_tweens s'"
    by (simp add: pulse_part_def loop_tweens_def)
  with assms show ?thesis by (simp add: pulse_part_def pulse_inv_def split: option.split)
qed

lemma pulse_part_frame:
  "pulse_part (on_audio j f s) = pulse_part s"
  "pulse_part (set_checked j b s) = pulse_part s"
  "pulse_part (uncheck_others i s) = pulse_part s"
  "pulse_part (userSwitches i s) = pulse_part s"
  "pulse_part (s\<lparr>currentAudio := x\<rparr>) = pulse_part s"
  "pulse_part (s\<lparr>console := y\<rparr>) = pulse_part s"
  by (simp_all add: pulse_part_def on_audio_def set_checked_def uncheck_others_def userSwitches_def)

lemma pulse_part_pausePrevious: "pulse_part (pausePrevious i s) = pulse_part s"
  by (simp add: pausePrevious_def pulse_part_frame split: option.split)

lemma pulse_part_play: "pulse_part (play i r s) = pulse_part s"
  by (cases r) (simp_all add: play_def pulse_part_frame)

lemma pulse_part_playCatch: "pulse_part (playCatch i s) = pulse_part s"
  by (simp add: playCatch_def pulse_part_frame)

lemma pulse_inv_stop:
  assumes "pulse_inv s"
  shows "loop_tweens (settle (clearCards (clearColor (clearBeat s)))) = []"
proof -
  have "Some (fst kt) \<in> {beatTween s, beatColorTween s, cardsBeatTween s}"
    if "kt \<in> set (loop_tweens s)" for kt
  proof -
    from that have "fst kt \<in> set (map fst (loop_tweens s))" by simp
    with assms show ?thesis
      by (auto simp: pulse_inv_def split: option.splits)
  qed
  then have "set (loop_tweens (settle (clearCards (clearColor (clearBeat s))))) = {}"
    unfolding stop_loops by blast
  then show ?thesis by simp
qed

lemma pulse_inv_stopped:
  assumes "pulse_inv s"
  shows "pulse_inv (settle (clearCards (clearColor (clearBeat s))))"
  using pulse_inv_stop [OF assms] by (simp add: pulse_inv_def stop_fields)

lemma pulse_inv_start:
  assumes "pulse_inv s"
  shows "pulse_inv (startBeatPulse bpm s)"
proof (cases "beatTween s \<noteq> None \<or> beatColorTween s \<noteq> None \<or> cardsBeatTween s \<noteq> None")
  case True
  with assms show ?thesis by (simp add: start_noop)
next
  case False
  with assms have "filter (\<lambda>kt. tw_repeat (snd kt) = - 1) (engine_tweens s) = []"
    by (simp add: pulse_inv_def loop_tweens_def)
  with False show ?thesis
    by (simp add: pulse_inv_def loop_tweens_def startBeatPulse_def gsap_to_def Let_def)
qed

lemma pulse_inv_new: "pulse_inv (new_MeduzaHorizontal pg)"
  by (simp add: pulse_inv_def loop_tweens_def new_MeduzaHorizontal_def createCardsAnimation_def
      createHorizontalPinAnimation_mh_def initCardMusic_def setupElements_mh_def)

lemma fire_mh_inv:
  assumes "pulse_inv s"
  shows "\<exists>s'. fire_mh ev s = Inr s' \<and> pulse_inv s'"
proof (cases ev)
  case (ToggleChange i r)
  let ?s1 = "pausePrevious i (userSwitches i s)"
  have p1: "pulse_inv ?s1"
    using assms pulse_inv_part [of ?s1 s] by (simp add: pulse_part_pausePrevious pulse_part_frame)
  then have p2: "pulse_inv (play i r ?s1)"
    using pulse_inv_part [of "play i r ?s1" ?s1] by (simp add: pulse_part_play)
  from p1 have p3: "pulse_inv (on_audio i (\<lambda>a. a\<lparr>paused := True\<rparr>) ?s1)"
    using pulse_inv_part [of "on_audio i (\<lambda>a. a\<lparr>paused := True\<rparr>) ?s1" ?s1]
    by (simp add: pulse_part_frame)
  from assms p2 pulse_inv_stopped [OF p3] ToggleChange show ?thesis
    by (simp add: onToggleChange_def Let_def stop_alt)
next
  case (PlayFulfilled i)
  have "pulse_inv (s\<lparr>currentAudio := Some i\<rparr>)"
    using assms pulse_inv_part [of "s\<lparr>currentAudio := Some i\<rparr>" s] by (simp add: pulse_part_frame)
  with assms PlayFulfilled show ?thesis by (simp add: playThen_def pulse_inv_start)
next
  case (PlayRejected i)
  have "pulse_inv (playCatch i s)"
    using assms pulse_inv_part [of "playCatch i s" s] by (simp add: pulse_part_playCatch)
  with assms PlayRejected show ?thesis by simp
next
  case (AudioEnded i)
  let ?s1 = "set_checked i False (on_audio i (\<lambda>a. a\<lparr>paused := True\<rparr>) s)"
  have "pulse_inv ?s1"
    using assms pulse_inv_part [of ?s1 s] by (simp add: pulse_part_frame)
  from assms pulse_inv_stopped [OF this] AudioEnded show ?thesis
    by (simp add: onEnded_def stop_alt)
qed

lemma run_mh_inv:
  "pulse_inv s \<Longrightarrow> \<exists>s'. run_mh evs s = Inr s' \<and> pulse_inv s'"
proof (induction evs arbitrary: s)
  case Nil
  then show ?case by simp
next
  case (Cons ev evs)
  from fire_mh_inv [OF Cons.prems, of ev] obtain s1 where
    s1: "fire_mh ev s = Inr s1" "pulse_inv s1" by blast
  from Cons.IH [OF s1(2)] s1(1) show ?case by (simp add: and_then_Inr)
qed

lemma pulse_inv_count: "pulse_inv s \<Longrightarrow> length (loop_tweens s) = (if beatTween s = None then 0 else 3)"
proof -
  assume a: "pulse_inv s"
  have "length (loop_tweens s) = length (map fst (loop_tweens s))" by simp
  also from a have "\<dots> = (if beatTween s = None then 0 else 3)"
    by (cases "beatTween s"; cases "beatColorTween s"; cases "cardsBeatTween s")
      (simp_all add: pulse_inv_def)
  finally show ?thesis .
qed

text \<open>
  Claim C6. \<open>startBeatPulse\<close> changes nothing, and so creates no tween, while any of the
  three looping tweens exists. \<open>stopBeatPulse\<close> never throws, in whatever state it is
  called, also when no looping tween exists; it sets the three references to \<open>null\<close> and
  takes every looping tween they referred to out of the engine. After any sequence of
  gallery events on a freshly constructed gallery (none of which throws), the engine holds
  either no looping tween or exactly three, starting the pulse twice holds the same
  looping tweens as starting it once, and after \<open>stopBeatPulse\<close> no looping tween is left.
\<close>

theorem beat_pulse_guards:
  "(beatTween s \<noteq> None \<or> beatColorTween s \<noteq> None \<or> cardsBeatTween s \<noteq> None \<longrightarrow>
      startBeatPulse bpm s = s)
   \<and> (\<exists>s'. stopBeatPulse s = Inr s' \<and> beatTween s' = None \<and> beatColorTween s' = None
          \<and> cardsBeatTween s' = None
          \<and> set (loop_tweens s') =
              {kt \<in> set (loop_tweens s).
                 Some (fst kt) \<notin> {beatTween s, beatColorTween s, cardsBeatTween s}})
   \<and> (\<exists>g. run_mh evs (new_MeduzaHorizontal pg) = Inr g
          \<and> length (loop_tweens g) = (if beatTween g = None then 0 else 3)
          \<and> loop_tweens (startBeatPulse bpm (startBeatPulse bpm g)) = loop_tweens (startBeatPulse bpm g)
          \<and> (\<exists>g'. stopBeatPulse g = Inr g' \<and> loop_tweens g' = []))"
proof -
  have c1: "beatTween s \<noteq> None \<or> beatColorTween s \<noteq> None \<or> cardsBeatTween s \<noteq> None \<longrightarrow>
      startBeatPulse bpm s = s"
    using start_noop [of s bpm] by blast
  have c2: "\<exists>s'. stopBeatPulse s = Inr s' \<and> beatTween s' = None \<and> beatColorTween s' = None
          \<and> cardsBeatTween s' = None
          \<and> set (loop_tweens s') =
              {kt \<in> set (loop_tweens s).
                 Some (fst kt) \<notin> {beatTween s, beatColorTween s, cardsBeatTween s}}"
    unfolding stop_alt using stop_loops [of s] by (simp add: stop_fields)
  from run_mh_inv [OF pulse_inv_new, of evs pg] obtain g where
    g: "run_mh evs (new_MeduzaHorizontal pg) = Inr g" "pulse_inv g" by blast
  have twice: "startBeatPulse bpm (startBeatPulse bpm g) = startBeatPulse bpm g"
  proof (cases "beatTween g \<noteq> None \<or> beatColorTween g \<noteq> None \<or> cardsBeatTween g \<noteq> None")
    case True
    then show ?thesis by (simp add: start_noop)
  next
    case False
    then have "beatTween (startBeatPulse bpm g) \<noteq> None"
      by (simp add: startBeatPulse_def gsap_to_def Let_def)
    then show ?thesis by (simp add: start_noop)
  qed
  have c3: "\<exists>g. run_mh evs (new_MeduzaHorizontal pg) = Inr g
          \<and> length (loop_tweens g) = (if beatTween g = None then 0 else 3)
          \<and> loop_tweens (startBeatPulse bpm (startBeatPulse bpm g)) = loop_tweens (startBeatPulse bpm g)
          \<and> (\<exists>g'. stopBeatPulse g = Inr g' \<and> loop_tweens g' = [])"
    using g pulse_inv_count [OF g(2)] pulse_inv_stop [OF g(2)] twice
    by (simp add: stop_alt)
  show ?thesis by (intro conjI c1 c2 c3)
qed

lemma demo_playing_pulse: "beatTween demo_playing = Some 0"
  by (simp add: demo_playing_def startBeatPulse_def gsap_to_def Let_def new_MeduzaHorizontal_def
      createCardsAnimation_def createHorizontalPinAnimation_mh_def initCardMusic_def
      setupElements_mh_def)

theorem beat_pulse_guards_witness:
  "beatTween demo_playing \<noteq> None \<and> startBeatPulse 124 demo_playing = demo_playing"
  using beat_pulse_guards [of demo_playing 124 "[]" demo_meduza_page]
  by (simp add: demo_playing_pulse)

section \<open>Exclusive playback in the gallery\<close>

lemma on_audio_cards:
  "length (card_elements (on_audio j f s)) = length (card_elements s)"
  "k < length (card_elements s) \<Longrightarrow>
     audio (card_elements (on_audio j f s) ! k) =
       (if k = j then map_option f (audio (card_elements s ! k)) else audio (card_elements s ! k))"
  "k < length (card_elements s) \<Longrightarrow>
     toggle (card_elements (on_audio j f s) ! k) = toggle (card_elements s ! k)"
  "currentAudio (on_audio j f s) = currentAudio s"
  by (cases "k = j"; simp add: on_audio_def)+

lemma uncheck_others_cards:
  "length (card_elements (uncheck_others i s)) = length (card_elements s)"
  "k < length (card_elements s) \<Longrightarrow>
     audio (card_elements (uncheck_others i s) ! k) = audio (card_elements s ! k)"
  "k < length (card_elements s) \<Longrightarrow>
     toggle (card_elements (uncheck_others i s) ! k) =
       (if k \<noteq> i then map_option (\<lambda>c. False) (toggle (card_elements s ! k))
        else toggle (card_elements s ! k))"
  "currentAudio (uncheck_others i s) = currentAudio s"
  by (simp_all add: uncheck_others_def)




















lemma unpaused_same_audio:
  "audio (card_elements t ! k) = audio (card_elements s ! k) \<Longrightarrow> unpaused t k = unpaused s k"
  by (simp add: unpaused_def)



lemma pausePrevious_toggle_own:
  "i < length (card_elements s) \<Longrightarrow>
     toggle (card_elements (pausePrevious i s) ! i) = toggle (card_elements s ! i)"
  by (cases "currentAudio s") (simp_all add: pausePrevious_def on_audio_cards uncheck_others_cards)



























end
